theory Spec2Isabelle
  imports Main "HOL-Library.Sublist"
begin

section \<open>Strings\<close>

text \<open>
  Names (stage names, domain names, account ids, construct ids) are ASCII strings.
  \<open>toUpperCase\<close> and \<open>toLowerCase\<close> are the JavaScript string methods on such
  strings: the letters \<open>a..z\<close> and \<open>A..Z\<close> are mapped, every other character is kept.
\<close>

definition lowerCaseLetters :: string where
  "lowerCaseLetters = ''abcdefghijklmnopqrstuvwxyz''"

definition upperCaseLetters :: string where
  "upperCaseLetters = ''ABCDEFGHIJKLMNOPQRSTUVWXYZ''"

definition toUpperCase_char :: "char \<Rightarrow> char" where
  "toUpperCase_char c =
     (case map_of (zip lowerCaseLetters upperCaseLetters) c of Some u \<Rightarrow> u | None \<Rightarrow> c)"

definition toLowerCase_char :: "char \<Rightarrow> char" where
  "toLowerCase_char c =
     (case map_of (zip upperCaseLetters lowerCaseLetters) c of Some l \<Rightarrow> l | None \<Rightarrow> c)"

definition toUpperCase :: "string \<Rightarrow> string" where
  "toUpperCase s = map toUpperCase_char s"

definition toLowerCase :: "string \<Rightarrow> string" where
  "toLowerCase s = map toLowerCase_char s"

section \<open>The declaration graph\<close>

text \<open>
  A value that is only known at deploy time (an attribute of another construct of the
  stack, such as a role's ARN) is a token: the id of the construct and the attribute.
\<close>

datatype Value =
    Lit string
  | Attr string string
  | Join string Value

record Environment =
  account :: "string option"
  region :: "string option"

datatype Effect = ALLOW | DENY

record Condition =
  operator :: string
  conditionKey :: string
  conditionValues :: "string list"

record PolicyStatement =
  effect :: Effect
  actions :: "string list"
  resources :: "Value list"
  conditions :: "Condition list"

datatype Principal =
    AccountPrincipal string
  | FederatedPrincipal Value "Condition list" string

record Role =
  roleName :: string
  assumedBy :: Principal
  inlinePolicies :: "(string \<times> PolicyStatement list) list"
  description :: "string option"
  maxSessionDurationHours :: "nat option"
  managedPolicies :: "string list"
  policyStatements :: "PolicyStatement list"

datatype RemovalPolicy = DESTROY | RETAIN_ON_UPDATE_OR_DELETE

datatype CertificateValidation = FromDns "string option"

record Bucket =
  bucketName :: string
  publicReadAccess :: bool
  blockPublicAccess :: string
  removalPolicy :: RemovalPolicy
  autoDeleteObjects :: bool
  grantRead :: "string list"

record Certificate =
  certDomainName :: string
  subjectAlternativeNames :: "string list"
  validation :: CertificateValidation

record CrossAccountZoneDelegationRecord =
  delegationRole :: string
  delegatedZone :: string
  parentHostedZoneName :: string

record Distribution =
  origin :: string
  viewerProtocolPolicy :: string
  cachePolicy :: string
  domainNames :: "string list"
  certificate :: string
  defaultRootObject :: string
  errorResponses :: "(nat \<times> nat \<times> string) list"

record ARecord =
  zone :: string
  recordName :: string
  target :: string

record BucketDeployment =
  sources :: "string list"
  destinationBucket :: string
  distribution :: string
  distributionPaths :: "string list"

record CfnOutput =
  outputValue :: Value
  outputDescription :: string
  exportName :: "string option"

text \<open>
  The constructs a stack of this repository declares. A construct that refers to
  another one of the same stack (a distribution to its certificate, a delegation record
  to its zone and role) holds the id of that construct.
\<close>

datatype Construct =
    PublicHostedZoneC string "RemovalPolicy option"
  | ImportedHostedZoneC string string
  | RoleC Role
  | ImportedRoleC string
  | OpenIdConnectProviderC string "string list"
  | BucketC Bucket
  | OriginAccessIdentityC string
  | CertificateC Certificate
  | ImportedCertificateC string
  | CrossAccountZoneDelegationRecordC CrossAccountZoneDelegationRecord
  | DistributionC Distribution
  | ARecordC ARecord
  | BucketDeploymentC BucketDeployment
  | CfnOutputC CfnOutput

text \<open>
  A stack: its id (also its stack name), the environment it targets, the constructs in
  the order of their declaration, and the explicit dependency edges
  (\<open>a.node.addDependency(b)\<close> is the edge \<open>(a, b)\<close>: \<open>a\<close> is created after \<open>b\<close>).
\<close>

record Stack =
  stackName :: string
  env :: Environment
  constructs :: "(string \<times> Construct) list"
  dependencies :: "(string \<times> string) list"

text \<open>
  \<open>Stack.formatArn\<close> with the default separator:
  \<open>arn:<partition>:<service>:<region>:<account>:<resource>/<resourceName>\<close>.
  The partition of the stack is a deploy-time token.
\<close>

definition partition :: string where
  "partition = ''${AWS::Partition}''"

definition formatArn :: "string \<Rightarrow> string \<Rightarrow> string \<Rightarrow> string \<Rightarrow> string \<Rightarrow> string" where
  "formatArn acct regn resource resourceName service =
     ''arn:'' @ partition @ '':'' @ service @ '':'' @ regn @ '':'' @ acct @ '':'' @ resource
       @ ''/'' @ resourceName"

section \<open>dns-stack.ts\<close>

record DnsStackProps =
  dns_env :: Environment
  dns_domainName :: string
  trustedAccounts :: "(string \<times> string) list"

text \<open>
  The role declared by one iteration of the loop over
  \<open>Object.entries(props.trustedAccounts)\<close>.
\<close>

definition crossAccountRole :: "string \<Rightarrow> string \<Rightarrow> string \<Rightarrow> Role" where
  "crossAccountRole domainName stageName acct =
     \<lparr> roleName = ''CrossAccountDnsManagementRole-'' @ stageName,
       assumedBy = AccountPrincipal acct,
       inlinePolicies =
         [(''delegation'',
           [\<lparr> effect = ALLOW,
               actions = [''route53:ListHostedZonesByName''],
               resources = [Lit ''*''],
               conditions = [] \<rparr>,
            \<lparr> effect = ALLOW,
               actions = [''route53:GetHostedZone''],
               resources = [Attr ''RootHostedZone'' ''hostedZoneArn''],
               conditions = [] \<rparr>,
            \<lparr> effect = ALLOW,
               actions = [''route53:ChangeResourceRecordSets''],
               resources = [Attr ''RootHostedZone'' ''hostedZoneArn''],
               conditions =
                 [\<lparr> operator = ''ForAnyValue:StringLike'',
                     conditionKey = ''route53:ChangeResourceRecordSetsNormalizedRecordNames'',
                     conditionValues = [''*'' @ stageName @ ''.'' @ domainName] \<rparr>] \<rparr>])],
       description = None,
       maxSessionDurationHours = None,
       managedPolicies = [],
       policyStatements = [] \<rparr>"

text \<open>
  The loop itself. \<open>trustedAccounts\<close> is the list \<open>Object.entries\<close> gives: the
  entries of the mapping, each stage name once.
\<close>

fun trustedAccountsLoop ::
  "string \<Rightarrow> string \<Rightarrow> (string \<times> string) list \<Rightarrow> (string \<times> Construct) list" where
  "trustedAccountsLoop stack domainName [] = []"
| "trustedAccountsLoop stack domainName ((stageName, acct) # rest) =
     [(''CrossAccountDnsManagementRole-'' @ stageName,
         RoleC (crossAccountRole domainName stageName acct)),
      (''CrossAccountRoleArn-'' @ stageName,
         CfnOutputC
           \<lparr> outputValue = Attr (''CrossAccountDnsManagementRole-'' @ stageName) ''roleArn'',
             outputDescription = ''ARN of the cross-account DNS management role'',
             exportName = Some (stack @ ''-CrossAccountRoleArn-'' @ stageName) \<rparr>)]
     @ trustedAccountsLoop stack domainName rest"

definition DnsStack :: "string \<Rightarrow> DnsStackProps \<Rightarrow> Stack" where
  "DnsStack ident props =
     \<lparr> stackName = ident,
       env = dns_env props,
       constructs =
         [(''RootHostedZone'',
             PublicHostedZoneC (dns_domainName props) (Some RETAIN_ON_UPDATE_OR_DELETE))]
         @ trustedAccountsLoop ident (dns_domainName props) (trustedAccounts props)
         @ [(''HostedZoneId'',
               CfnOutputC \<lparr> outputValue = Attr ''RootHostedZone'' ''hostedZoneId'',
                            outputDescription = ''Hosted Zone ID'',
                            exportName = Some (ident @ ''-HostedZoneId'') \<rparr>),
            (''HostedZoneName'',
               CfnOutputC \<lparr> outputValue = Attr ''RootHostedZone'' ''zoneName'',
                            outputDescription = ''Hosted Zone Name'',
                            exportName = Some (ident @ ''-HostedZoneName'') \<rparr>),
            (''NameServers'',
               CfnOutputC \<lparr> outputValue = Join '', '' (Attr ''RootHostedZone'' ''hostedZoneNameServers''),
                            outputDescription = ''Name servers for the hosted zone'',
                            exportName = None \<rparr>)],
       dependencies = [] \<rparr>"

subsection \<open>Reading a stack\<close>

text \<open>The roles a stack declares, with their construct ids, in declaration order.\<close>

fun rolesOf :: "(string \<times> Construct) list \<Rightarrow> (string \<times> Role) list" where
  "rolesOf [] = []"
| "rolesOf ((i, RoleC r) # cs) = (i, r) # rolesOf cs"
| "rolesOf (_ # cs) = rolesOf cs"

text \<open>
  The record-name allow-list of a role: the values of the condition on
  \<open>route53:ChangeResourceRecordSetsNormalizedRecordNames\<close> in its statements that allow
  \<open>route53:ChangeResourceRecordSets\<close>.
\<close>

definition statementRecordNamePatterns :: "PolicyStatement \<Rightarrow> string list" where
  "statementRecordNamePatterns st =
     (if ''route53:ChangeResourceRecordSets'' \<in> set (actions st)
      then concat (map conditionValues
             (filter (\<lambda>c. conditionKey c = ''route53:ChangeResourceRecordSetsNormalizedRecordNames'')
                (conditions st)))
      else [])"

definition recordNamePatterns :: "Role \<Rightarrow> string list" where
  "recordNamePatterns r =
     concat (map statementRecordNamePatterns (concat (map snd (inlinePolicies r))))"

text \<open>
  The repository only writes policy conditions down; what they mean is fixed by the
  IAM policy language, evaluated by the cloud provider. To state which names a pattern
  admits, the \<open>StringLike\<close> operator is written out here as that language documents it:
  case-sensitive matching in which \<open>*\<close> in the pattern stands for any run of characters
  (the empty one too) and \<open>?\<close> for any one character.
\<close>

fun string_like :: "string \<Rightarrow> string \<Rightarrow> bool" where
  "string_like [] n = (n = [])"
| "string_like (p # ps) [] = (p = CHR ''*'' \<and> string_like ps [])"
| "string_like (p # ps) (c # cs) =
     (if p = CHR ''*'' then string_like ps (c # cs) \<or> string_like (p # ps) cs
      else (p = CHR ''?'' \<or> p = c) \<and> string_like ps cs)"

definition wildcardFree :: "string \<Rightarrow> bool" where
  "wildcardFree s = (CHR ''*'' \<notin> set s \<and> CHR ''?'' \<notin> set s)"


section \<open>infra/lib/static-website-stack.ts\<close>

record StaticWebsiteStackProps =
  sw_env :: Environment
  dnsAccountId :: string
  rootHostedZoneName :: string
  domainName :: string
  stageName :: string

text \<open>\<open>this.account\<close>: the account of the stack's environment, a token when none is given.\<close>

definition stackAccount :: "Environment \<Rightarrow> string" where
  "stackAccount e = (case account e of Some a \<Rightarrow> a | None \<Rightarrow> ''${AWS::AccountId}'')"

text \<open>The five outputs at the end of the constructor, the same in both versions of the stack.\<close>

definition websiteOutputs :: "StaticWebsiteStackProps \<Rightarrow> (string \<times> Construct) list" where
  "websiteOutputs props =
     [(''DelegationRecord'',
         CfnOutputC \<lparr> outputValue = Attr ''subdomainHostedZone'' ''hostedZoneId'',
                      outputDescription = ''Subdomain Hosted Zone ID'', exportName = None \<rparr>),
      (''BucketName'',
         CfnOutputC \<lparr> outputValue = Attr ''SiteBucket'' ''bucketName'',
                      outputDescription = ''S3 Bucket Name'', exportName = None \<rparr>),
      (''DistributionId'',
         CfnOutputC \<lparr> outputValue = Attr ''Distribution'' ''distributionId'',
                      outputDescription = ''CloudFront Distribution ID'', exportName = None \<rparr>),
      (''DistributionDomainName'',
         CfnOutputC \<lparr> outputValue = Attr ''Distribution'' ''distributionDomainName'',
                      outputDescription = ''CloudFront Distribution Domain Name'',
                      exportName = None \<rparr>),
      (''WebsiteUrl'',
         CfnOutputC \<lparr> outputValue = Lit (''https://'' @ domainName props),
                      outputDescription = ''Website URL'', exportName = None \<rparr>)]"

definition StaticWebsiteStack :: "string \<Rightarrow> StaticWebsiteStackProps \<Rightarrow> Stack" where
  "StaticWebsiteStack ident props =
     (let delegationRoleArn =
            formatArn (dnsAccountId props) [] ''role''
              (''CrossAccountDnsManagementRole-'' @ stageName props) ''iam''
      in
      \<lparr> stackName = ident,
        env = sw_env props,
        constructs =
          [(''SiteBucket'',
              BucketC \<lparr> bucketName = stageName props @ ''-website-'' @ stackAccount (sw_env props),
                        publicReadAccess = False,
                        blockPublicAccess = ''BLOCK_ALL'',
                        removalPolicy = DESTROY,
                        autoDeleteObjects = True,
                        grantRead = [''OAI''] \<rparr>),
           (''DelegationRole'', ImportedRoleC delegationRoleArn),
           (''OAI'', OriginAccessIdentityC (''OAI for '' @ domainName props)),
           (''subdomainHostedZone'', PublicHostedZoneC (domainName props) None),
           (''SubdomainCertificate'',
              CertificateC
                \<lparr> certDomainName = domainName props,
                  subjectAlternativeNames =
                    (if stageName props = ''prod'' then [rootHostedZoneName props] else []),
                  validation = FromDns None \<rparr>),
           (''DelegationRecord-'' @ stageName props,
              CrossAccountZoneDelegationRecordC
                \<lparr> delegationRole = ''DelegationRole'',
                  delegatedZone = ''subdomainHostedZone'',
                  parentHostedZoneName = rootHostedZoneName props \<rparr>),
           (''Distribution'',
              DistributionC
                \<lparr> origin = ''SiteBucket'',
                  viewerProtocolPolicy = ''REDIRECT_TO_HTTPS'',
                  cachePolicy = ''CACHING_OPTIMIZED'',
                  domainNames =
                    (if stageName props = ''prod''
                     then [rootHostedZoneName props, domainName props]
                     else [domainName props]),
                  certificate = ''SubdomainCertificate'',
                  defaultRootObject = ''index.html'',
                  errorResponses = [(404, 200, ''/index.html'')] \<rparr>),
           (''AliasRecord'',
              ARecordC \<lparr> zone = ''subdomainHostedZone'', recordName = domainName props,
                         target = ''Distribution'' \<rparr>),
           (''subdomainDelegationRecord'',
              CrossAccountZoneDelegationRecordC
                \<lparr> delegationRole = ''DelegationRole'',
                  delegatedZone = ''subdomainHostedZone'',
                  parentHostedZoneName = rootHostedZoneName props \<rparr>),
           (''WebsiteDeployment'',
              BucketDeploymentC
                \<lparr> sources = [''../../website/dist''],
                  destinationBucket = ''SiteBucket'',
                  distribution = ''Distribution'',
                  distributionPaths = [''/*''] \<rparr>)]
          @ websiteOutputs props,
        dependencies = [(''SubdomainCertificate'', ''DelegationRecord-'' @ stageName props)] \<rparr>)"

section \<open>The other version of the static-website stack (unnamed/part_004)\<close>

text \<open>
  \<open>String(val).charAt(0).toUpperCase() + String(val).slice(1)\<close>; \<open>charAt(0)\<close> of the
  empty string is the empty string.
\<close>

definition capitalizeFirstLetter :: "string \<Rightarrow> string" where
  "capitalizeFirstLetter val = toUpperCase (take 1 val) @ drop 1 val"

definition StaticWebsiteStack_part_004 :: "string \<Rightarrow> StaticWebsiteStackProps \<Rightarrow> Stack" where
  "StaticWebsiteStack_part_004 ident props =
     (let delegationRoleArn =
            formatArn (dnsAccountId props) [] ''role''
              (''CrossAccountDnsManagementRole-'' @ capitalizeFirstLetter (stageName props)) ''iam'';
          certificateArn =
            ''arn:aws:acm:us-east-1:'' @ dnsAccountId props
              @ '':certificate/cf8a651d-bc88-46b5-b84a-4b64b0cfc594''
      in
      \<lparr> stackName = ident,
        env = sw_env props,
        constructs =
          [(''SiteBucket'',
              BucketC \<lparr> bucketName = stageName props @ ''-website-'' @ stackAccount (sw_env props),
                        publicReadAccess = False,
                        blockPublicAccess = ''BLOCK_ALL'',
                        removalPolicy = DESTROY,
                        autoDeleteObjects = True,
                        grantRead = [''OAI''] \<rparr>),
           (''DelegationRole'', ImportedRoleC delegationRoleArn),
           (''OAI'', OriginAccessIdentityC (''OAI for '' @ domainName props)),
           (''subdomainHostedZone'', PublicHostedZoneC (domainName props) None),
           (if stageName props = ''prod''
            then (''WebsiteCertificate'',
                    CertificateC
                      \<lparr> certDomainName = domainName props,
                        subjectAlternativeNames = [],
                        validation = FromDns (Some ''subdomainHostedZone'') \<rparr>)
            else (''ImportedCertificate'', ImportedCertificateC certificateArn)),
           (''DelegationRecord-'' @ stageName props,
              CrossAccountZoneDelegationRecordC
                \<lparr> delegationRole = ''DelegationRole'',
                  delegatedZone = ''subdomainHostedZone'',
                  parentHostedZoneName = rootHostedZoneName props \<rparr>),
           (''Distribution'',
              DistributionC
                \<lparr> origin = ''SiteBucket'',
                  viewerProtocolPolicy = ''REDIRECT_TO_HTTPS'',
                  cachePolicy = ''CACHING_OPTIMIZED'',
                  domainNames =
                    (if stageName props = ''prod''
                     then [''www.'' @ rootHostedZoneName props, rootHostedZoneName props,
                           domainName props]
                     else [domainName props]),
                  certificate =
                    (if stageName props = ''prod'' then ''WebsiteCertificate''
                     else ''ImportedCertificate''),
                  defaultRootObject = ''index.html'',
                  errorResponses = [] \<rparr>),
           (''AliasRecord'',
              ARecordC \<lparr> zone = ''subdomainHostedZone'', recordName = domainName props,
                         target = ''Distribution'' \<rparr>),
           (''WebsiteDeployment'',
              BucketDeploymentC
                \<lparr> sources = [''../../clhaskellelectric.com/dist''],
                  destinationBucket = ''SiteBucket'',
                  distribution = ''Distribution'',
                  distributionPaths = [''/*''] \<rparr>)]
          @ websiteOutputs props,
        dependencies = [] \<rparr>)"

section \<open>infra/lib/certificate-stack.ts\<close>

record RootCertificateStackProps =
  rc_env :: Environment
  rootHostedZoneId :: string
  rc_rootHostedZoneName :: string

text \<open>
  The props handed to the \<open>Stack\<close> constructor:
  \<open>{ ...props, env: { region: "us-east-1" } }\<close>. The spread keeps every field of the
  props but \<open>env\<close>, which is replaced whole: the new environment names no account.
\<close>

definition superProps :: "RootCertificateStackProps \<Rightarrow> RootCertificateStackProps" where
  "superProps props = props \<lparr> rc_env := \<lparr> account = None, region = Some ''us-east-1'' \<rparr> \<rparr>"

definition RootCertificateStack :: "string \<Rightarrow> RootCertificateStackProps \<Rightarrow> Stack" where
  "RootCertificateStack ident props =
     \<lparr> stackName = ident,
       env = rc_env (superProps props),
       constructs =
         [(''HostedZone'',
             ImportedHostedZoneC (rootHostedZoneId props) (rc_rootHostedZoneName props)),
          (''MultiDomainCertificate'',
             CertificateC
               \<lparr> certDomainName = rc_rootHostedZoneName props,
                 subjectAlternativeNames =
                   [''*.'' @ rc_rootHostedZoneName props, ''prod.'' @ rc_rootHostedZoneName props],
                 validation = FromDns (Some ''HostedZone'') \<rparr>),
          (''CertificateArnOutput'',
             CfnOutputC \<lparr> outputValue = Attr ''MultiDomainCertificate'' ''certificateArn'',
                          outputDescription = ''ARN of the ACM Certificate'',
                          exportName = None \<rparr>)],
       dependencies = [] \<rparr>"

section \<open>The GitHub Actions role stack (unnamed/part_001)\<close>

record GitHubActionsRoleStackProps =
  gh_env :: Environment
  repoOwner :: string
  repoName :: string
  gh_dnsAccountId :: string
  stage :: string
  additionalPolicies :: "string list option"

text \<open>
  \<open>this.role\<close> once the constructor is through: the role as created, with the managed
  policies and the policy statements added to it afterwards.
\<close>

definition githubActionsDeployRole :: "GitHubActionsRoleStackProps \<Rightarrow> Role" where
  "githubActionsDeployRole props =
     (let subjectClaim = ''repo:'' @ repoOwner props @ ''/'' @ repoName props @ '':*'';
          delegationRoleArn =
            formatArn (gh_dnsAccountId props) [] ''role''
              (''CrossAccountDnsManagementRole-'' @ stage props) ''iam''
      in
        \<lparr> roleName =
            ''github-actions-'' @ repoOwner props @ ''-'' @ repoName props @ ''-role'',
          assumedBy =
            FederatedPrincipal (Attr ''GitHubOIDCProvider'' ''openIdConnectProviderArn'')
              [\<lparr> operator = ''StringEquals'',
                  conditionKey = ''token.actions.githubusercontent.com:aud'',
                  conditionValues = [''sts.amazonaws.com''] \<rparr>,
               \<lparr> operator = ''StringLike'',
                  conditionKey = ''token.actions.githubusercontent.com:sub'',
                  conditionValues = [subjectClaim] \<rparr>]
              ''sts:AssumeRoleWithWebIdentity'',
          inlinePolicies = [],
          description =
            Some (''Role for GitHub Actions to deploy CDK stacks from ''
                    @ repoOwner props @ ''/'' @ repoName props),
          maxSessionDurationHours = Some 1,
          managedPolicies =
            ''PowerUserAccess''
              # (case additionalPolicies props of None \<Rightarrow> [] | Some ps \<Rightarrow> ps),
          policyStatements =
            [\<lparr> effect = ALLOW,
                actions =
                  [''iam:CreateRole'', ''iam:DeleteRole'', ''iam:GetRole'',
                   ''iam:UpdateRole'', ''iam:PassRole'', ''iam:AttachRolePolicy'',
                   ''iam:DetachRolePolicy'', ''iam:PutRolePolicy'',
                   ''iam:DeleteRolePolicy'', ''iam:GetRolePolicy'', ''iam:TagRole'',
                   ''iam:UntagRole'', ''iam:CreatePolicy'', ''iam:DeletePolicy'',
                   ''iam:GetPolicy'', ''iam:GetPolicyVersion'',
                   ''iam:ListPolicyVersions'', ''iam:CreatePolicyVersion'',
                   ''iam:DeletePolicyVersion'', ''iam:TagPolicy'', ''iam:UntagPolicy''],
                resources = [Lit ''*''],
                conditions = [] \<rparr>,
             \<lparr> effect = ALLOW,
                actions = [''sts:AssumeRole''],
                resources = [Lit delegationRoleArn],
                conditions = [] \<rparr>] \<rparr>)"

definition GitHubActionsRoleStack :: "string \<Rightarrow> GitHubActionsRoleStackProps \<Rightarrow> Stack" where
  "GitHubActionsRoleStack ident props =
     \<lparr> stackName = ident,
       env = gh_env props,
       constructs =
         [(''GitHubOIDCProvider'',
             OpenIdConnectProviderC ''https://token.actions.githubusercontent.com''
               [''sts.amazonaws.com'']),
          (''GitHubActionsDeployRole'', RoleC (githubActionsDeployRole props)),
          (''RoleArn'',
             CfnOutputC \<lparr> outputValue = Attr ''GitHubActionsDeployRole'' ''roleArn'',
                          outputDescription = ''ARN of the IAM role for GitHub Actions'',
                          exportName = Some (ident @ ''-RoleArn'') \<rparr>),
          (''RoleName'',
             CfnOutputC \<lparr> outputValue = Attr ''GitHubActionsDeployRole'' ''roleName'',
                          outputDescription = ''Name of the IAM role for GitHub Actions'',
                          exportName = None \<rparr>)],
       dependencies = [] \<rparr>"

text \<open>
  What the trust policy of a role permits, in the meaning the IAM policy language gives
  it (the stack only declares the policy). A request to assume a role is the action
  asked for and the claims of the presented token (the condition keys and their values),
  the token being one of the role's principal. Every condition of the principal must
  hold: \<open>StringEquals\<close> holds when the key's value is one of the condition's values,
  \<open>StringLike\<close> when it matches one of them as a pattern; a key the request does not
  carry fails the condition, and so does an operator other than these two.
\<close>

definition conditionHolds :: "(string \<Rightarrow> string option) \<Rightarrow> Condition \<Rightarrow> bool" where
  "conditionHolds claims c =
     (case claims (conditionKey c) of
        None \<Rightarrow> False
      | Some v \<Rightarrow>
          if operator c = ''StringEquals'' then v \<in> set (conditionValues c)
          else if operator c = ''StringLike'' then list_ex (\<lambda>p. string_like p v) (conditionValues c)
          else False)"

definition trustPolicyPermits :: "Role \<Rightarrow> string \<Rightarrow> (string \<Rightarrow> string option) \<Rightarrow> bool" where
  "trustPolicyPermits r action claims =
     (case assumedBy r of
        FederatedPrincipal provider conds assumeRoleAction \<Rightarrow>
          action = assumeRoleAction \<and> list_all (conditionHolds claims) conds
      | AccountPrincipal acct \<Rightarrow>
          action = ''sts:AssumeRole'' \<and> claims ''aws:PrincipalAccount'' = Some acct)"

text \<open>The claims of a token with the given audience and subject.\<close>

definition tokenClaims :: "string \<Rightarrow> string \<Rightarrow> string \<Rightarrow> string option" where
  "tokenClaims aud sub =
     Map.empty(''token.actions.githubusercontent.com:aud'' \<mapsto> aud,
               ''token.actions.githubusercontent.com:sub'' \<mapsto> sub)"

section \<open>infra/bin/app.ts\<close>

text \<open>
  What the app reads: the CDK context (\<open>app.node.tryGetContext\<close>) and the process
  environment. A key that is not set reads as \<open>undefined\<close>, here \<open>None\<close>.
\<close>

record AppInputs =
  cdkContext :: "string \<Rightarrow> string option"
  processEnv :: "string \<Rightarrow> string option"

text \<open>
  JavaScript's \<open>a || b\<close> and \<open>!a\<close> on values that are a string or \<open>undefined\<close>:
  \<open>undefined\<close> and the empty string are the falsy ones.
\<close>

definition falsy :: "string option \<Rightarrow> bool" where
  "falsy v = (case v of None \<Rightarrow> True | Some s \<Rightarrow> s = [])"

definition orElse :: "string option \<Rightarrow> string option \<Rightarrow> string option" where
  "orElse a b = (if falsy a then b else a)"

record Config =
  cfg_dnsAccount :: "string option"
  cfg_gammaAccount :: "string option"
  cfg_prodAccount :: "string option"
  cfg_domainName :: "string option"
  cfg_region :: "string option"
  cfg_repoOwner :: "string option"
  cfg_repoName :: "string option"

definition config :: "AppInputs \<Rightarrow> Config" where
  "config inp =
     \<lparr> cfg_dnsAccount = orElse (cdkContext inp ''dnsAccount'') (processEnv inp ''DNS_ACCOUNT_ID''),
       cfg_gammaAccount =
         orElse (cdkContext inp ''gammaAccount'') (processEnv inp ''GAMMA_ACCOUNT_ID''),
       cfg_prodAccount = orElse (cdkContext inp ''prodAccount'') (processEnv inp ''PROD_ACCOUNT_ID''),
       cfg_domainName = orElse (cdkContext inp ''domainName'') (processEnv inp ''DOMAIN_NAME''),
       cfg_region = orElse (cdkContext inp ''region'') (Some ''us-east-1''),
       cfg_repoOwner =
         orElse (cdkContext inp ''repoOwner'') (processEnv inp ''GITHUB_REPOSITORY_OWNER''),
       cfg_repoName = orElse (cdkContext inp ''repoName'') (processEnv inp ''REPO_NAME'') \<rparr>"

text \<open>\<open>config[field]\<close>: the field of the configuration object with that name.\<close>

definition configField :: "Config \<Rightarrow> string \<Rightarrow> string option" where
  "configField c field =
     (if field = ''dnsAccount'' then cfg_dnsAccount c
      else if field = ''gammaAccount'' then cfg_gammaAccount c
      else if field = ''prodAccount'' then cfg_prodAccount c
      else if field = ''domainName'' then cfg_domainName c
      else if field = ''region'' then cfg_region c
      else if field = ''repoOwner'' then cfg_repoOwner c
      else if field = ''repoName'' then cfg_repoName c
      else None)"

definition requiredEnvironmentVars :: "string list" where
  "requiredEnvironmentVars =
     [''dnsAccount'', ''gammaAccount'', ''prodAccount'', ''domainName'', ''repoOwner'',
      ''repoName'']"

datatype Error = Error string

definition missingMessage :: "string \<Rightarrow> string" where
  "missingMessage field =
     ''Missing required configuration: '' @ field @ ''. ''
       @ ''Set via --context '' @ field @ ''=value or environment variable '' @ toUpperCase field"

text \<open>The validation loop: the first required field that is falsy throws.\<close>

fun validateRequired :: "Config \<Rightarrow> string list \<Rightarrow> Error option" where
  "validateRequired c [] = None"
| "validateRequired c (field # rest) =
     (if falsy (configField c field) then Some (Error (missingMessage field))
      else validateRequired c rest)"

text \<open>
  The stacks the app instantiates, each \<open>new X(app, id, props)\<close> as the class, the id and
  the props it is given. \<open>app.ts\<close> gives the GitHub Actions role stack an environment,
  \<open>repoOwner\<close> and \<open>repoName\<close> only.
\<close>

record GitHubActionsRoleStackArgs =
  gha_env :: Environment
  gha_repoOwner :: string
  gha_repoName :: string

datatype StackDecl =
    DnsStackD string DnsStackProps
  | StaticWebsiteStackD string StaticWebsiteStackProps
  | GitHubActionsRoleStackD string GitHubActionsRoleStackArgs

text \<open>
  A configuration value where the code uses it as a string. The stacks are built after
  the validation loop only, where every required field holds a non-empty string; in a
  template literal \<open>undefined\<close> would read as the text \<open>undefined\<close>.
\<close>

definition str :: "string option \<Rightarrow> string" where
  "str v = (case v of Some s \<Rightarrow> s | None \<Rightarrow> ''undefined'')"

definition stageAccounts :: "Config \<Rightarrow> (string \<times> string) list" where
  "stageAccounts c = [(''gamma'', str (cfg_gammaAccount c)), (''prod'', str (cfg_prodAccount c))]"

definition stages :: "string list" where
  "stages = [''Gamma'', ''Prod'']"

definition stageStacks :: "Config \<Rightarrow> string \<Rightarrow> StackDecl list" where
  "stageStacks c stg =
     (let stageName = toLowerCase stg in
      [StaticWebsiteStackD (stg @ ''StaticWebsiteStack'')
         \<lparr> sw_env = \<lparr> account = map_of (stageAccounts c) stageName, region = cfg_region c \<rparr>,
           dnsAccountId = str (cfg_dnsAccount c),
           rootHostedZoneName = str (cfg_domainName c),
           domainName = stageName @ ''.'' @ str (cfg_domainName c),
           stageName = stageName \<rparr>,
       GitHubActionsRoleStackD (stg @ ''GitHubActionsRole'')
         \<lparr> gha_env = \<lparr> account = map_of (stageAccounts c) stageName, region = cfg_region c \<rparr>,
           gha_repoOwner = str (cfg_repoOwner c),
           gha_repoName = str (cfg_repoName c) \<rparr>])"

text \<open>
  One run of the app: the error it throws, if any, and the stacks instantiated up to
  that point (all of them when nothing is thrown, before \<open>app.synth()\<close>).
\<close>

record AppRun =
  thrown :: "Error option"
  instantiated :: "StackDecl list"

definition app :: "AppInputs \<Rightarrow> AppRun" where
  "app inp =
     (let c = config inp in
      case validateRequired c requiredEnvironmentVars of
        Some e \<Rightarrow> \<lparr> thrown = Some e, instantiated = [] \<rparr>
      | None \<Rightarrow>
          \<lparr> thrown = None,
            instantiated =
              DnsStackD ''DnsStack''
                \<lparr> dns_env = \<lparr> account = cfg_dnsAccount c, region = cfg_region c \<rparr>,
                  dns_domainName = str (cfg_domainName c),
                  trustedAccounts = stageAccounts c \<rparr>
              # concat (map (stageStacks c) stages) \<rparr>)"

section \<open>The other version of the app (unnamed/part_003)\<close>

text \<open>
  The same configuration and validation loop; the stacks are written out one by one,
  the two website stacks before the two role stacks.
\<close>

definition app_part_003 :: "AppInputs \<Rightarrow> AppRun" where
  "app_part_003 inp =
     (let c = config inp in
      case validateRequired c requiredEnvironmentVars of
        Some e \<Rightarrow> \<lparr> thrown = Some e, instantiated = [] \<rparr>
      | None \<Rightarrow>
          \<lparr> thrown = None,
            instantiated =
              [DnsStackD ''DnsStack''
                 \<lparr> dns_env = \<lparr> account = cfg_dnsAccount c, region = cfg_region c \<rparr>,
                   dns_domainName = str (cfg_domainName c),
                   trustedAccounts =
                     [(''gamma'', str (cfg_gammaAccount c)), (''prod'', str (cfg_prodAccount c))] \<rparr>,
               StaticWebsiteStackD ''GammaStaticWebsiteStack''
                 \<lparr> sw_env = \<lparr> account = cfg_gammaAccount c, region = cfg_region c \<rparr>,
                   dnsAccountId = str (cfg_dnsAccount c),
                   rootHostedZoneName = str (cfg_domainName c),
                   domainName = ''gamma.'' @ str (cfg_domainName c),
                   stageName = ''gamma'' \<rparr>,
               StaticWebsiteStackD ''ProdStaticWebsiteStack''
                 \<lparr> sw_env = \<lparr> account = cfg_prodAccount c, region = cfg_region c \<rparr>,
                   dnsAccountId = str (cfg_dnsAccount c),
                   rootHostedZoneName = str (cfg_domainName c),
                   domainName = ''prod.'' @ str (cfg_domainName c),
                   stageName = ''prod'' \<rparr>,
               GitHubActionsRoleStackD ''GammaGitHubActionsRole''
                 \<lparr> gha_env = \<lparr> account = cfg_gammaAccount c, region = cfg_region c \<rparr>,
                   gha_repoOwner = str (cfg_repoOwner c),
                   gha_repoName = str (cfg_repoName c) \<rparr>,
               GitHubActionsRoleStackD ''ProdGitHubActionsRole''
                 \<lparr> gha_env = \<lparr> account = cfg_prodAccount c, region = cfg_region c \<rparr>,
                   gha_repoOwner = str (cfg_repoOwner c),
                   gha_repoName = str (cfg_repoName c) \<rparr>] \<rparr>)"

section \<open>Reading the declared graph\<close>

text \<open>The role a stack declares for a stage's delegation, found by its construct id.\<close>

definition delegationRoleFor :: "Stack \<Rightarrow> string \<Rightarrow> Role option" where
  "delegationRoleFor st stg =
     map_of (rolesOf (constructs st)) (''CrossAccountDnsManagementRole-'' @ stg)"

text \<open>The cross-account delegation records of a stack, with their construct ids.\<close>

fun delegationRecordsOf ::
  "(string \<times> Construct) list \<Rightarrow> (string \<times> CrossAccountZoneDelegationRecord) list" where
  "delegationRecordsOf [] = []"
| "delegationRecordsOf ((i, CrossAccountZoneDelegationRecordC r) # cs) =
     (i, r) # delegationRecordsOf cs"
| "delegationRecordsOf (_ # cs) = delegationRecordsOf cs"

text \<open>The distribution of a website stack, the domain names it declares, and the names
  covered by the certificate bound to it: the certificate's domain name and its subject
  alternative names. A certificate imported by its ARN declares no names in the stack.\<close>

definition theDistribution :: "Stack \<Rightarrow> Distribution option" where
  "theDistribution st =
     (case map_of (constructs st) ''Distribution'' of
        Some (DistributionC d) \<Rightarrow> Some d
      | _ \<Rightarrow> None)"

definition distributionDomainNames :: "Stack \<Rightarrow> string list" where
  "distributionDomainNames st =
     (case theDistribution st of Some d \<Rightarrow> domainNames d | None \<Rightarrow> [])"

definition boundCertificate :: "Stack \<Rightarrow> Construct option" where
  "boundCertificate st =
     (case theDistribution st of
        Some d \<Rightarrow> map_of (constructs st) (certificate d)
      | None \<Rightarrow> None)"

definition certificateCoveredNames :: "Stack \<Rightarrow> string list option" where
  "certificateCoveredNames st =
     (case boundCertificate st of
        Some (CertificateC c) \<Rightarrow> Some (certDomainName c # subjectAlternativeNames c)
      | _ \<Rightarrow> None)"


text \<open>
  An order in which the constructs of a stack are created: every construct once.
  It respects the dependency edges when, for every edge \<open>(a, b)\<close>, \<open>b\<close> is created
  before \<open>a\<close>.
\<close>

fun position :: "string \<Rightarrow> string list \<Rightarrow> nat option" where
  "position x [] = None"
| "position x (y # ys) =
     (if x = y then Some 0 else map_option Suc (position x ys))"

definition createdBefore :: "string \<Rightarrow> string \<Rightarrow> string list \<Rightarrow> bool" where
  "createdBefore a b order =
     (case position a order of
        None \<Rightarrow> False
      | Some i \<Rightarrow> (case position b order of None \<Rightarrow> False | Some j \<Rightarrow> i < j))"

definition creationOrder :: "Stack \<Rightarrow> string list \<Rightarrow> bool" where
  "creationOrder st order =
     (distinct order
      \<and> list_all (\<lambda>i. i \<in> set order) (map fst (constructs st))
      \<and> list_all (\<lambda>i. i \<in> set (map fst (constructs st))) order)"

definition respectsDependencies :: "Stack \<Rightarrow> string list \<Rightarrow> bool" where
  "respectsDependencies st order =
     list_all (\<lambda>e. createdBefore (snd e) (fst e) order) (dependencies st)"

text \<open>
  The environment variable that backs each required field in the configuration object,
  and the id of an instantiated stack.
\<close>

definition environmentVariable :: "string \<Rightarrow> string" where
  "environmentVariable field =
     (if field = ''dnsAccount'' then ''DNS_ACCOUNT_ID''
      else if field = ''gammaAccount'' then ''GAMMA_ACCOUNT_ID''
      else if field = ''prodAccount'' then ''PROD_ACCOUNT_ID''
      else if field = ''domainName'' then ''DOMAIN_NAME''
      else if field = ''repoOwner'' then ''GITHUB_REPOSITORY_OWNER''
      else if field = ''repoName'' then ''REPO_NAME''
      else [])"

fun declId :: "StackDecl \<Rightarrow> string" where
  "declId (DnsStackD i _) = i"
| "declId (StaticWebsiteStackD i _) = i"
| "declId (GitHubActionsRoleStackD i _) = i"


section \<open>Sample inputs\<close>

definition sampleInputs :: AppInputs where
  "sampleInputs =
     \<lparr> cdkContext = Map.empty(''region'' \<mapsto> ''us-west-2''),
       processEnv =
         Map.empty(''DNS_ACCOUNT_ID'' \<mapsto> ''111111111111'',
                   ''GAMMA_ACCOUNT_ID'' \<mapsto> ''222222222222'',
                   ''PROD_ACCOUNT_ID'' \<mapsto> ''333333333333'',
                   ''DOMAIN_NAME'' \<mapsto> ''example.com'',
                   ''GITHUB_REPOSITORY_OWNER'' \<mapsto> ''octo'',
                   ''REPO_NAME'' \<mapsto> ''site'') \<rparr>"

definition sampleDnsProps :: DnsStackProps where
  "sampleDnsProps =
     \<lparr> dns_env = \<lparr> account = Some ''111111111111'', region = Some ''us-east-1'' \<rparr>,
       dns_domainName = ''example.com'',
       trustedAccounts = [(''gamma'', ''222222222222''), (''prod'', ''333333333333'')] \<rparr>"

definition sampleWebsiteProps :: "string \<Rightarrow> StaticWebsiteStackProps" where
  "sampleWebsiteProps stg =
     \<lparr> sw_env = \<lparr> account = Some ''222222222222'', region = Some ''us-east-1'' \<rparr>,
       dnsAccountId = ''111111111111'',
       rootHostedZoneName = ''example.com'',
       domainName = stg @ ''.example.com'',
       stageName = stg \<rparr>"

definition sampleProdProps :: StaticWebsiteStackProps where
  "sampleProdProps =
     \<lparr> sw_env = \<lparr> account = Some ''333333333333'', region = Some ''us-west-2'' \<rparr>,
       dnsAccountId = ''111111111111'',
       rootHostedZoneName = ''example.com'',
       domainName = ''prod.example.com'',
       stageName = ''prod'' \<rparr>"

definition sampleOrder :: "string list" where
  "sampleOrder =
     [''SiteBucket'', ''DelegationRole'', ''OAI'', ''subdomainHostedZone'',
      ''DelegationRecord-gamma'', ''SubdomainCertificate'', ''Distribution'',
      ''AliasRecord'', ''subdomainDelegationRecord'', ''WebsiteDeployment'',
      ''DelegationRecord'', ''BucketName'', ''DistributionId'',
      ''DistributionDomainName'', ''WebsiteUrl'']"

definition sampleRoleProps :: GitHubActionsRoleStackProps where
  "sampleRoleProps =
     \<lparr> gh_env = \<lparr> account = Some ''222222222222'', region = Some ''us-east-1'' \<rparr>,
       repoOwner = ''octo'',
       repoName = ''site'',
       gh_dnsAccountId = ''111111111111'',
       stage = ''gamma'',
       additionalPolicies = None \<rparr>"

definition sampleInputsWithout :: "string \<Rightarrow> AppInputs" where
  "sampleInputsWithout var =
     sampleInputs \<lparr> processEnv := (processEnv sampleInputs)(var := None) \<rparr>"


definition sampleContextInputs :: AppInputs where
  "sampleContextInputs =
     \<lparr> cdkContext =
         Map.empty(''dnsAccount'' \<mapsto> ''111111111111'',
                   ''gammaAccount'' \<mapsto> ''222222222222'',
                   ''prodAccount'' \<mapsto> ''333333333333'',
                   ''domainName'' \<mapsto> ''example.com'',
                   ''repoOwner'' \<mapsto> ''octo'',
                   ''repoName'' \<mapsto> ''site''),
       processEnv = Map.empty \<rparr>"

section \<open>Properties of dns-stack.ts\<close>

lemma rolesOf_trustedAccountsLoop:
  "rolesOf (trustedAccountsLoop stack d entries) =
     map (\<lambda>(s, a). (''CrossAccountDnsManagementRole-'' @ s, crossAccountRole d s a)) entries"
  by (induction entries) auto

lemma rolesOf_append: "rolesOf (xs @ ys) = rolesOf xs @ rolesOf ys"
  by (induction xs rule: rolesOf.induct) auto

lemma rolesOf_DnsStack:
  "rolesOf (constructs (DnsStack ident props)) =
     map (\<lambda>(s, a). (''CrossAccountDnsManagementRole-'' @ s,
                     crossAccountRole (dns_domainName props) s a)) (trustedAccounts props)"
  by (simp add: DnsStack_def rolesOf_append rolesOf_trustedAccountsLoop)

lemma recordNamePatterns_crossAccountRole:
  "recordNamePatterns (crossAccountRole d s a) = [''*'' @ s @ ''.'' @ d]"
  by (simp add: recordNamePatterns_def crossAccountRole_def statementRecordNamePatterns_def)

lemma roleName_crossAccountRole:
  "roleName (crossAccountRole d s a) = ''CrossAccountDnsManagementRole-'' @ s"
  by (simp add: crossAccountRole_def)

lemma map_of_roles_Some:
  "map_of (map (\<lambda>(s, a). (pre @ s, f s a)) entries) (pre @ s) = Some r
     \<Longrightarrow> \<exists>a. (s, a) \<in> set entries \<and> r = f s a"
  by (induction entries) (auto split: if_splits)

lemma map_of_roles_present:
  "map_of entries s = Some a
     \<Longrightarrow> map_of (map (\<lambda>(s, a). (pre @ s, f s a)) entries) (pre @ s) = Some (f s a)"
  by (induction entries) auto

lemma delegationRoleFor_DnsStack_Some:
  assumes "delegationRoleFor (DnsStack ident props) s = Some r"
  shows "\<exists>a. (s, a) \<in> set (trustedAccounts props) \<and> r = crossAccountRole (dns_domainName props) s a"
  using assms unfolding delegationRoleFor_def rolesOf_DnsStack
  by (rule map_of_roles_Some)

lemma delegationRoleFor_DnsStack_present:
  assumes "map_of (trustedAccounts props) s = Some a"
  shows "delegationRoleFor (DnsStack ident props) s = Some (crossAccountRole (dns_domainName props) s a)"
  using assms unfolding delegationRoleFor_def rolesOf_DnsStack
  by (rule map_of_roles_present)

text \<open>
  Claim C3, as amended. For every stage name \<open>s\<close> of the trusted-accounts mapping given
  to the DNS stack and its domain \<open>d\<close>, the stack declares the role
  \<open>CrossAccountDnsManagementRole-s\<close>, and the record-name allow-list in the condition of
  that role's \<open>ChangeResourceRecordSets\<close> statement is the one pattern \<open>*s.d\<close>: the
  wildcard is followed by the stage name at once, with no dot between them.
\<close>

theorem dns_record_name_pattern:
  "map (\<lambda>(i, r). (i, roleName r, recordNamePatterns r)) (rolesOf (constructs (DnsStack ident props)))
     = map (\<lambda>(s, a). (''CrossAccountDnsManagementRole-'' @ s,
                       ''CrossAccountDnsManagementRole-'' @ s,
                       [''*'' @ s @ ''.'' @ dns_domainName props])) (trustedAccounts props)
   \<and> (\<forall>s a. map_of (trustedAccounts props) s = Some a \<longrightarrow>
         (\<exists>r. delegationRoleFor (DnsStack ident props) s = Some r
              \<and> recordNamePatterns r = [''*'' @ s @ ''.'' @ dns_domainName props]))"
  by (auto simp: rolesOf_DnsStack recordNamePatterns_crossAccountRole roleName_crossAccountRole
        delegationRoleFor_DnsStack_present)

theorem dns_record_name_pattern_witness:
  "map_of (trustedAccounts sampleDnsProps) ''gamma'' = Some ''222222222222''
   \<and> map_option recordNamePatterns (delegationRoleFor (DnsStack ''DnsStack'' sampleDnsProps) ''gamma'')
       = Some [''*gamma.example.com'']"
proof -
  have h: "map_of (trustedAccounts sampleDnsProps) ''gamma'' = Some ''222222222222''"
    by (simp add: sampleDnsProps_def)
  from dns_record_name_pattern [of "''DnsStack''" sampleDnsProps] h
  obtain r where "delegationRoleFor (DnsStack ''DnsStack'' sampleDnsProps) ''gamma'' = Some r"
    and "recordNamePatterns r = [''*'' @ ''gamma'' @ ''.'' @ dns_domainName sampleDnsProps]"
    by blast
  then show ?thesis using h by (simp add: sampleDnsProps_def)
qed

text \<open>
  The pattern of the claim as first stated, \<open>*.s.d\<close>, is not the one the stack declares:
  for the stage \<open>gamma\<close> of \<open>example.com\<close> the role holds \<open>*gamma.example.com\<close>.
\<close>

theorem dns_record_name_pattern_counterexample:
  "map_option recordNamePatterns (delegationRoleFor (DnsStack ''DnsStack'' sampleDnsProps) ''gamma'')
     = Some [''*gamma.example.com'']
   \<and> [''*gamma.example.com''] \<noteq> [''*.'' @ ''gamma'' @ ''.'' @ dns_domainName sampleDnsProps]"
  by (simp add: delegationRoleFor_def rolesOf_DnsStack sampleDnsProps_def
        recordNamePatterns_crossAccountRole)

lemma string_like_wildcardFree:
  "wildcardFree p \<Longrightarrow> string_like p n = (p = n)"
  by (induction p n rule: string_like.induct) (auto simp: wildcardFree_def)

lemma string_like_star_suffix:
  "wildcardFree p \<Longrightarrow> string_like (CHR ''*'' # p) n = suffix p n"
proof (induction n)
  case Nil
  then show ?case by (simp add: string_like_wildcardFree)
next
  case (Cons c cs)
  then show ?case by (auto simp: string_like_wildcardFree suffix_Cons)
qed

lemma wildcardFree_append: "wildcardFree (xs @ ys) = (wildcardFree xs \<and> wildcardFree ys)"
  by (auto simp: wildcardFree_def)

lemma patterns_disjoint:
  assumes "wildcardFree s1" "wildcardFree s2" "wildcardFree d"
    and "\<not> suffix s1 s2" "\<not> suffix s2 s1"
  shows "\<not> (string_like (''*'' @ s1 @ ''.'' @ d) n \<and> string_like (''*'' @ s2 @ ''.'' @ d) n)"
proof
  assume h: "string_like (''*'' @ s1 @ ''.'' @ d) n \<and> string_like (''*'' @ s2 @ ''.'' @ d) n"
  have w1: "wildcardFree (s1 @ ''.'' @ d)" and w2: "wildcardFree (s2 @ ''.'' @ d)"
    using assms by (simp_all add: wildcardFree_append) (simp_all add: wildcardFree_def)
  from h have "suffix (s1 @ ''.'' @ d) n" "suffix (s2 @ ''.'' @ d) n"
    using string_like_star_suffix[OF w1] string_like_star_suffix[OF w2] by simp_all
  then have "suffix (s1 @ ''.'' @ d) (s2 @ ''.'' @ d) \<or> suffix (s2 @ ''.'' @ d) (s1 @ ''.'' @ d)"
    by (rule suffix_same_cases)
  then show False using assms(4,5) by simp
qed

text \<open>
  Claim C6, as amended. For every trusted-accounts mapping given to the DNS stack, every
  pattern of the role generated for a stage contains the stage's name as a substring.
  For two stages of the mapping whose names are neither a suffix of the other, when the
  two names and the domain hold no wildcard character, no record name is matched by
  both stages' patterns.
\<close>

theorem dns_patterns_anchored_and_disjoint:
  assumes r1: "delegationRoleFor (DnsStack ident props) s1 = Some r1"
    and r2: "delegationRoleFor (DnsStack ident props) s2 = Some r2"
    and p1: "p1 \<in> set (recordNamePatterns r1)"
    and p2: "p2 \<in> set (recordNamePatterns r2)"
  shows "sublist s1 p1 \<and> sublist s2 p2
    \<and> (wildcardFree s1 \<and> wildcardFree s2 \<and> wildcardFree (dns_domainName props)
         \<and> \<not> suffix s1 s2 \<and> \<not> suffix s2 s1
       \<longrightarrow> (\<forall>n. \<not> (string_like p1 n \<and> string_like p2 n)))"
proof -
  from delegationRoleFor_DnsStack_Some [OF r1] p1
  have e1: "p1 = ''*'' @ s1 @ ''.'' @ dns_domainName props"
    by (auto simp: recordNamePatterns_crossAccountRole)
  from delegationRoleFor_DnsStack_Some [OF r2] p2
  have e2: "p2 = ''*'' @ s2 @ ''.'' @ dns_domainName props"
    by (auto simp: recordNamePatterns_crossAccountRole)
  have "sublist s1 (''*'' @ s1 @ ''.'' @ dns_domainName props)"
    and "sublist s2 (''*'' @ s2 @ ''.'' @ dns_domainName props)"
    by (rule sublist_appendI)+
  then show ?thesis
    unfolding e1 e2 using patterns_disjoint by blast
qed

theorem dns_patterns_anchored_and_disjoint_witness:
  "delegationRoleFor (DnsStack ''DnsStack'' sampleDnsProps) ''gamma''
     = Some (crossAccountRole ''example.com'' ''gamma'' ''222222222222'')
   \<and> delegationRoleFor (DnsStack ''DnsStack'' sampleDnsProps) ''prod''
     = Some (crossAccountRole ''example.com'' ''prod'' ''333333333333'')
   \<and> ''*gamma.example.com'' \<in> set (recordNamePatterns (crossAccountRole ''example.com'' ''gamma'' ''222222222222''))
   \<and> ''*prod.example.com'' \<in> set (recordNamePatterns (crossAccountRole ''example.com'' ''prod'' ''333333333333''))
   \<and> wildcardFree ''gamma'' \<and> wildcardFree ''prod'' \<and> wildcardFree (dns_domainName sampleDnsProps)
   \<and> \<not> suffix ''gamma'' ''prod'' \<and> \<not> suffix ''prod'' ''gamma''
   \<and> sublist ''gamma'' ''*gamma.example.com'' \<and> sublist ''prod'' ''*prod.example.com''
   \<and> \<not> (string_like ''*gamma.example.com'' ''gamma.example.com''
          \<and> string_like ''*prod.example.com'' ''gamma.example.com'')"
proof -
  have a: "delegationRoleFor (DnsStack ''DnsStack'' sampleDnsProps) ''gamma''
     = Some (crossAccountRole ''example.com'' ''gamma'' ''222222222222'')"
    and b: "delegationRoleFor (DnsStack ''DnsStack'' sampleDnsProps) ''prod''
     = Some (crossAccountRole ''example.com'' ''prod'' ''333333333333'')"
    by (simp_all add: delegationRoleFor_def rolesOf_DnsStack sampleDnsProps_def)
  have c: "''*gamma.example.com'' \<in> set (recordNamePatterns (crossAccountRole ''example.com'' ''gamma'' ''222222222222''))"
    and d: "''*prod.example.com'' \<in> set (recordNamePatterns (crossAccountRole ''example.com'' ''prod'' ''333333333333''))"
    by (simp_all add: recordNamePatterns_crossAccountRole)
  have w: "wildcardFree ''gamma'' \<and> wildcardFree ''prod'' \<and> wildcardFree (dns_domainName sampleDnsProps)
      \<and> \<not> suffix ''gamma'' ''prod'' \<and> \<not> suffix ''prod'' ''gamma''"
    by (simp add: wildcardFree_def sampleDnsProps_def suffix_to_prefix)
  from dns_patterns_anchored_and_disjoint [OF a b c d] w a b c d
  show ?thesis by blast
qed

text \<open>
  Without the condition on suffixes the patterns of two different stages can overlap:
  with the stages \<open>prod\<close> and \<open>preprod\<close>, the record name \<open>preprod.example.com\<close> is
  matched by the patterns of both.
\<close>

theorem dns_patterns_overlap_counterexample:
  "map_option recordNamePatterns
      (delegationRoleFor
         (DnsStack ''DnsStack''
            (sampleDnsProps \<lparr> trustedAccounts := [(''prod'', ''333333333333''), (''preprod'', ''444444444444'')] \<rparr>))
         ''prod'') = Some [''*prod.example.com'']
   \<and> map_option recordNamePatterns
      (delegationRoleFor
         (DnsStack ''DnsStack''
            (sampleDnsProps \<lparr> trustedAccounts := [(''prod'', ''333333333333''), (''preprod'', ''444444444444'')] \<rparr>))
         ''preprod'') = Some [''*preprod.example.com'']
   \<and> ''prod'' \<noteq> ''preprod''
   \<and> string_like ''*prod.example.com'' ''preprod.example.com''
   \<and> string_like ''*preprod.example.com'' ''preprod.example.com''"
  by (simp add: delegationRoleFor_def rolesOf_DnsStack sampleDnsProps_def
        recordNamePatterns_crossAccountRole)


section \<open>The role name of unnamed/part_004\<close>

lemma toUpperCase_char_lower:
  "c \<in> set lowerCaseLetters \<Longrightarrow> toUpperCase_char c \<noteq> c"
  by (auto simp: lowerCaseLetters_def upperCaseLetters_def toUpperCase_char_def)

lemma capitalizeFirstLetter_Cons:
  "capitalizeFirstLetter (c # cs) = toUpperCase_char c # cs"
  by (simp add: capitalizeFirstLetter_def toUpperCase_def)

lemma importedRole_part_004:
  "map_of (constructs (StaticWebsiteStack_part_004 ident props)) ''DelegationRole''
     = Some (ImportedRoleC (formatArn (dnsAccountId props) [] ''role''
               (''CrossAccountDnsManagementRole-'' @ capitalizeFirstLetter (stageName props)) ''iam''))"
  by (simp add: StaticWebsiteStack_part_004_def)

lemma formatArn_resourceName:
  "(formatArn a g res n1 svc = formatArn a g res n2 svc) = (n1 = n2)"
  by (simp add: formatArn_def)

lemma toUpperCase_char_changes:
  "(toUpperCase_char c \<noteq> c) = (c \<in> set lowerCaseLetters)"
proof
  assume "toUpperCase_char c \<noteq> c"
  then have "map_of (zip lowerCaseLetters upperCaseLetters) c \<noteq> None"
    by (auto simp: toUpperCase_char_def split: option.splits)
  then have "c \<in> fst ` set (zip lowerCaseLetters upperCaseLetters)"
    by (simp add: map_of_eq_None_iff)
  then show "c \<in> set lowerCaseLetters"
    by (auto dest: set_zip_leftD)
next
  assume "c \<in> set lowerCaseLetters"
  then show "toUpperCase_char c \<noteq> c" by (rule toUpperCase_char_lower)
qed

text \<open>
  Claim C10, as amended. The version of the static-website stack in unnamed/part_004
  builds the name of the delegation role from the stage name with its first letter
  capitalised, while the DNS stack names the role it creates with the stage name as it
  is. Hence for every stage name whose first character is a lowercase letter (the
  characters that capitalising changes), the role that version refers to is none of the
  roles the DNS stack creates for that stage: the names differ, and so do the ARNs.
\<close>

theorem capitalized_role_name_differs:
  assumes "stageName props = c # cs" and "c \<in> set lowerCaseLetters"
  shows "map_of (constructs (StaticWebsiteStack_part_004 ident props)) ''DelegationRole''
           = Some (ImportedRoleC (formatArn (dnsAccountId props) [] ''role''
                     (''CrossAccountDnsManagementRole-'' @ toUpperCase_char c # cs) ''iam''))
         \<and> toUpperCase_char c \<noteq> c
         \<and> (\<forall>r. delegationRoleFor (DnsStack dnsIdent dnsProps) (stageName props) = Some r \<longrightarrow>
               roleName r = ''CrossAccountDnsManagementRole-'' @ c # cs
               \<and> roleName r \<noteq> ''CrossAccountDnsManagementRole-'' @ toUpperCase_char c # cs
               \<and> formatArn (dnsAccountId props) [] ''role'' (roleName r) ''iam''
                   \<noteq> formatArn (dnsAccountId props) [] ''role''
                        (''CrossAccountDnsManagementRole-'' @ toUpperCase_char c # cs) ''iam'')"
proof -
  have u: "toUpperCase_char c \<noteq> c"
    using assms(2) by (rule toUpperCase_char_lower)
  have "\<And>r. delegationRoleFor (DnsStack dnsIdent dnsProps) (stageName props) = Some r
          \<Longrightarrow> roleName r = ''CrossAccountDnsManagementRole-'' @ c # cs"
    using delegationRoleFor_DnsStack_Some assms(1) roleName_crossAccountRole by fastforce
  then show ?thesis
    using assms(1) u
    by (auto simp: importedRole_part_004 capitalizeFirstLetter_Cons formatArn_resourceName)
qed

theorem capitalized_role_name_differs_witness:
  "stageName (sampleWebsiteProps ''gamma'') = CHR ''g'' # ''amma''
   \<and> CHR ''g'' \<in> set lowerCaseLetters
   \<and> delegationRoleFor (DnsStack ''DnsStack'' sampleDnsProps) ''gamma''
       = Some (crossAccountRole ''example.com'' ''gamma'' ''222222222222'')
   \<and> roleName (crossAccountRole ''example.com'' ''gamma'' ''222222222222'')
       = ''CrossAccountDnsManagementRole-gamma''
   \<and> map_of (constructs (StaticWebsiteStack_part_004 ''GammaStaticWebsiteStack'' (sampleWebsiteProps ''gamma'')))
         ''DelegationRole''
       = Some (ImportedRoleC (formatArn ''111111111111'' [] ''role''
                 ''CrossAccountDnsManagementRole-Gamma'' ''iam''))
   \<and> formatArn ''111111111111'' [] ''role'' ''CrossAccountDnsManagementRole-gamma'' ''iam''
       \<noteq> formatArn ''111111111111'' [] ''role'' ''CrossAccountDnsManagementRole-Gamma'' ''iam''"
proof -
  have s: "stageName (sampleWebsiteProps ''gamma'') = CHR ''g'' # ''amma''"
    by (simp add: sampleWebsiteProps_def)
  have u: "CHR ''g'' \<in> set lowerCaseLetters"
    by (simp add: lowerCaseLetters_def)
  have g: "toUpperCase_char CHR ''g'' = CHR ''G''"
    by (simp add: toUpperCase_char_def lowerCaseLetters_def upperCaseLetters_def)
  have d: "delegationRoleFor (DnsStack ''DnsStack'' sampleDnsProps) ''gamma''
       = Some (crossAccountRole ''example.com'' ''gamma'' ''222222222222'')"
    by (simp add: delegationRoleFor_def rolesOf_DnsStack sampleDnsProps_def)
  have i: "dnsAccountId (sampleWebsiteProps ''gamma'') = ''111111111111''"
    by (simp add: sampleWebsiteProps_def)
  from capitalized_role_name_differs [OF s u, of "''GammaStaticWebsiteStack''" "''DnsStack''" sampleDnsProps]
  show ?thesis using s u d unfolding g i by (simp add: roleName_crossAccountRole)
qed

text \<open>
  The claim as first stated, for every first character that is not already uppercase,
  fails where that character has no uppercase form: the stage name \<open>1gamma\<close> is left as
  it is, and the role the stack refers to is the one the DNS stack creates.
\<close>

theorem capitalized_role_name_counterexample:
  "CHR ''1'' \<notin> set upperCaseLetters
   \<and> stageName (sampleWebsiteProps ''1gamma'') = ''1gamma''
   \<and> map_of (constructs (StaticWebsiteStack_part_004 ''StaticWebsiteStack'' (sampleWebsiteProps ''1gamma'')))
         ''DelegationRole''
       = Some (ImportedRoleC (formatArn ''111111111111'' [] ''role''
                 ''CrossAccountDnsManagementRole-1gamma'' ''iam''))
   \<and> map_option roleName
         (delegationRoleFor
            (DnsStack ''DnsStack'' (sampleDnsProps \<lparr> trustedAccounts := [(''1gamma'', ''222222222222'')] \<rparr>))
            ''1gamma'')
       = Some ''CrossAccountDnsManagementRole-1gamma''"
  by (simp add: upperCaseLetters_def sampleWebsiteProps_def importedRole_part_004
        capitalizeFirstLetter_def toUpperCase_def toUpperCase_char_def lowerCaseLetters_def
        delegationRoleFor_def rolesOf_DnsStack sampleDnsProps_def roleName_crossAccountRole)


section \<open>Properties of infra/lib/static-website-stack.ts\<close>

text \<open>
  Claim C9. For every stage, the static-website stack of infra/lib declares two
  cross-account zone delegation records, \<open>DelegationRecord-<stage>\<close> and
  \<open>subdomainDelegationRecord\<close>, both for the same subdomain hosted zone, the same parent
  zone and the same delegation role, not one record only.
\<close>

theorem two_delegation_records:
  "delegationRecordsOf (constructs (StaticWebsiteStack ident props)) =
     [(''DelegationRecord-'' @ stageName props,
         \<lparr> delegationRole = ''DelegationRole'', delegatedZone = ''subdomainHostedZone'',
           parentHostedZoneName = rootHostedZoneName props \<rparr>),
      (''subdomainDelegationRecord'',
         \<lparr> delegationRole = ''DelegationRole'', delegatedZone = ''subdomainHostedZone'',
           parentHostedZoneName = rootHostedZoneName props \<rparr>)]
   \<and> ''DelegationRecord-'' @ stageName props \<noteq> ''subdomainDelegationRecord''
   \<and> length (delegationRecordsOf (constructs (StaticWebsiteStack ident props))) = 2
   \<and> map_of (constructs (StaticWebsiteStack ident props)) ''subdomainHostedZone''
       = Some (PublicHostedZoneC (domainName props) None)
   \<and> map_of (constructs (StaticWebsiteStack ident props)) ''DelegationRole''
       = Some (ImportedRoleC (formatArn (dnsAccountId props) [] ''role''
                 (''CrossAccountDnsManagementRole-'' @ stageName props) ''iam''))"
  by (simp add: StaticWebsiteStack_def websiteOutputs_def)

theorem two_delegation_records_witness:
  "map fst (delegationRecordsOf (constructs (StaticWebsiteStack ''GammaStaticWebsiteStack'' (sampleWebsiteProps ''gamma''))))
     = [''DelegationRecord-gamma'', ''subdomainDelegationRecord'']"
  using two_delegation_records [of "''GammaStaticWebsiteStack''" "sampleWebsiteProps ''gamma''"]
  by (simp add: sampleWebsiteProps_def)

lemma createdBefore_asym: "createdBefore a b order \<Longrightarrow> \<not> createdBefore b a order"
  by (auto simp: createdBefore_def split: option.splits)

text \<open>
  Claim C5. In the static-website stack of infra/lib the certificate node has an
  explicit dependency edge on the stage's cross-account delegation record node
  \<open>DelegationRecord-<stage>\<close>. So in every creation order that respects the dependency
  edges of the stack, that delegation record is created before the certificate, and
  never the certificate before it.
\<close>

theorem certificate_after_delegation_record:
  assumes "respectsDependencies (StaticWebsiteStack ident props) order"
  shows "(''SubdomainCertificate'', ''DelegationRecord-'' @ stageName props)
           \<in> set (dependencies (StaticWebsiteStack ident props))
    \<and> map_of (constructs (StaticWebsiteStack ident props)) ''SubdomainCertificate''
        = Some (CertificateC
                  \<lparr> certDomainName = domainName props,
                    subjectAlternativeNames =
                      (if stageName props = ''prod'' then [rootHostedZoneName props] else []),
                    validation = FromDns None \<rparr>)
    \<and> map_of (constructs (StaticWebsiteStack ident props)) (''DelegationRecord-'' @ stageName props)
        = Some (CrossAccountZoneDelegationRecordC
                  \<lparr> delegationRole = ''DelegationRole'', delegatedZone = ''subdomainHostedZone'',
                    parentHostedZoneName = rootHostedZoneName props \<rparr>)
    \<and> createdBefore (''DelegationRecord-'' @ stageName props) ''SubdomainCertificate'' order
    \<and> \<not> createdBefore ''SubdomainCertificate'' (''DelegationRecord-'' @ stageName props) order"
proof -
  have b: "createdBefore (''DelegationRecord-'' @ stageName props) ''SubdomainCertificate'' order"
    using assms by (simp add: respectsDependencies_def StaticWebsiteStack_def)
  then have "\<not> createdBefore ''SubdomainCertificate'' (''DelegationRecord-'' @ stageName props) order"
    by (rule createdBefore_asym)
  with b show ?thesis by (simp add: StaticWebsiteStack_def)
qed

theorem certificate_after_delegation_record_witness:
  "creationOrder (StaticWebsiteStack ''GammaStaticWebsiteStack'' (sampleWebsiteProps ''gamma'')) sampleOrder
   \<and> respectsDependencies (StaticWebsiteStack ''GammaStaticWebsiteStack'' (sampleWebsiteProps ''gamma'')) sampleOrder
   \<and> createdBefore ''DelegationRecord-gamma'' ''SubdomainCertificate'' sampleOrder
   \<and> \<not> createdBefore ''SubdomainCertificate'' ''DelegationRecord-gamma'' sampleOrder"
proof -
  have c: "creationOrder (StaticWebsiteStack ''GammaStaticWebsiteStack'' (sampleWebsiteProps ''gamma'')) sampleOrder"
    by (simp add: creationOrder_def StaticWebsiteStack_def sampleWebsiteProps_def sampleOrder_def
          websiteOutputs_def)
  have r: "respectsDependencies (StaticWebsiteStack ''GammaStaticWebsiteStack'' (sampleWebsiteProps ''gamma'')) sampleOrder"
    by (simp add: respectsDependencies_def StaticWebsiteStack_def sampleWebsiteProps_def
          sampleOrder_def createdBefore_def)
  have s: "stageName (sampleWebsiteProps ''gamma'') = ''gamma''"
    by (simp add: sampleWebsiteProps_def)
  from certificate_after_delegation_record [OF r] c r show ?thesis
    unfolding s by simp
qed

section \<open>Properties of infra/lib/certificate-stack.ts\<close>

text \<open>
  Claim C7. For every input, the root certificate stack targets the region
  \<open>us-east-1\<close>, whatever account and region its props name, and its certificate is a
  resource of that stack.
\<close>

theorem root_certificate_region:
  "region (env (RootCertificateStack ident props)) = Some ''us-east-1''
   \<and> map_of (constructs (RootCertificateStack ident props)) ''MultiDomainCertificate''
       = Some (CertificateC
                 \<lparr> certDomainName = rc_rootHostedZoneName props,
                   subjectAlternativeNames =
                     [''*.'' @ rc_rootHostedZoneName props, ''prod.'' @ rc_rootHostedZoneName props],
                   validation = FromDns (Some ''HostedZone'') \<rparr>)"
  by (simp add: RootCertificateStack_def superProps_def)

theorem root_certificate_region_witness:
  "region (env (RootCertificateStack ''RootCertificateStack''
      \<lparr> rc_env = \<lparr> account = Some ''111111111111'', region = Some ''eu-west-1'' \<rparr>,
        rootHostedZoneId = ''Z123'', rc_rootHostedZoneName = ''example.com'' \<rparr>)) = Some ''us-east-1''"
  using root_certificate_region [of "''RootCertificateStack''"
      "\<lparr> rc_env = \<lparr> account = Some ''111111111111'', region = Some ''eu-west-1'' \<rparr>,
        rootHostedZoneId = ''Z123'', rc_rootHostedZoneName = ''example.com'' \<rparr>"]
  by simp


section \<open>Properties of the GitHub Actions role stack\<close>

lemma string_like_star: "string_like ''*'' n"
  by (induction n) auto

lemma string_like_prefix_star:
  "wildcardFree p \<Longrightarrow> string_like (p @ ''*'') n = prefix p n"
proof (induction p arbitrary: n)
  case Nil
  then show ?case using string_like_star by simp
next
  case (Cons c cs)
  then have w: "wildcardFree cs" and c: "c \<noteq> CHR ''*''" "c \<noteq> CHR ''?''"
    by (auto simp: wildcardFree_def)
  show ?case
  proof (cases n)
    case Nil
    then show ?thesis using c by simp
  next
    case (Cons d ds)
    then show ?thesis using c Cons.IH [OF w, of ds] by auto
  qed
qed

lemma split_at_delimiter:
  "c \<notin> set a \<Longrightarrow> c \<notin> set b \<Longrightarrow> a @ c # x = b @ c # y \<Longrightarrow> a = b \<and> x = y"
proof (induction a arbitrary: b)
  case Nil
  then show ?case by (cases b) auto
next
  case (Cons h t)
  then show ?case by (cases b) auto
qed

lemma assumedBy_githubActionsDeployRole:
  "assumedBy (githubActionsDeployRole props) =
     FederatedPrincipal (Attr ''GitHubOIDCProvider'' ''openIdConnectProviderArn'')
       [\<lparr> operator = ''StringEquals'',
           conditionKey = ''token.actions.githubusercontent.com:aud'',
           conditionValues = [''sts.amazonaws.com''] \<rparr>,
        \<lparr> operator = ''StringLike'',
           conditionKey = ''token.actions.githubusercontent.com:sub'',
           conditionValues = [''repo:'' @ repoOwner props @ ''/'' @ repoName props @ '':*''] \<rparr>]
       ''sts:AssumeRoleWithWebIdentity''"
  by (simp add: githubActionsDeployRole_def)

lemma trustPolicyPermits_githubActionsDeployRole:
  "trustPolicyPermits (githubActionsDeployRole props) action claims =
     (action = ''sts:AssumeRoleWithWebIdentity''
      \<and> claims ''token.actions.githubusercontent.com:aud'' = Some ''sts.amazonaws.com''
      \<and> (\<exists>sub. claims ''token.actions.githubusercontent.com:sub'' = Some sub
            \<and> string_like (''repo:'' @ repoOwner props @ ''/'' @ repoName props @ '':*'') sub))"
  by (auto simp: trustPolicyPermits_def assumedBy_githubActionsDeployRole conditionHolds_def
        split: option.splits)

lemma repository_subject:
  assumes "wildcardFree owner" "wildcardFree name"
    and "CHR ''/'' \<notin> set owner" "CHR ''/'' \<notin> set owner'"
    and "CHR '':'' \<notin> set name" "CHR '':'' \<notin> set name'"
  shows "string_like (''repo:'' @ owner @ ''/'' @ name @ '':*'')
            (''repo:'' @ owner' @ ''/'' @ name' @ '':'' @ ref)
         = (owner' = owner \<and> name' = name)"
proof -
  have w: "wildcardFree (''repo:'' @ owner @ ''/'' @ name @ '':'')"
    using assms(1,2) by (simp add: wildcardFree_def)
  have "string_like ((''repo:'' @ owner @ ''/'' @ name @ '':'') @ ''*'')
            (''repo:'' @ owner' @ ''/'' @ name' @ '':'' @ ref)
        = prefix (''repo:'' @ owner @ ''/'' @ name @ '':'')
            (''repo:'' @ owner' @ ''/'' @ name' @ '':'' @ ref)"
    by (rule string_like_prefix_star [OF w])
  also have "\<dots> = prefix (owner @ CHR ''/'' # name @ [CHR '':''])
                      (owner' @ CHR ''/'' # name' @ CHR '':'' # ref)"
    by simp
  also have "\<dots> = (owner' = owner \<and> name' = name)"
  proof
    assume "prefix (owner @ CHR ''/'' # name @ [CHR '':'']) (owner' @ CHR ''/'' # name' @ CHR '':'' # ref)"
    then obtain z where z: "owner' @ CHR ''/'' # name' @ CHR '':'' # ref
                             = owner @ CHR ''/'' # (name @ CHR '':'' # z)"
      by (auto simp: prefix_def)
    from split_at_delimiter [OF assms(4) assms(3) z]
    have o: "owner' = owner" and r: "name' @ CHR '':'' # ref = name @ CHR '':'' # z" by simp_all
    from split_at_delimiter [OF assms(6) assms(5) r] o
    show "owner' = owner \<and> name' = name" by simp
  next
    assume "owner' = owner \<and> name' = name"
    then show "prefix (owner @ CHR ''/'' # name @ [CHR '':'']) (owner' @ CHR ''/'' # name' @ CHR '':'' # ref)"
      by (simp add: prefix_def)
  qed
  finally show ?thesis by simp
qed

text \<open>
  Claim C8. For every \<open>repoOwner\<close> and \<open>repoName\<close>, the trust policy of the CI role
  permits \<open>sts:AssumeRoleWithWebIdentity\<close>, and that action only, to a token whose
  audience is \<open>sts.amazonaws.com\<close> and whose subject matches
  \<open>repo:<repoOwner>/<repoName>:*\<close>, and to no other token. For an owner and a name
  written without wildcard characters, \<open>/\<close> or \<open>:\<close>, the subjects that match are the
  subjects of that repository, with any ref, and of no other repository.
\<close>

theorem github_trust_policy:
  "rolesOf (constructs (GitHubActionsRoleStack ident props))
     = [(''GitHubActionsDeployRole'', githubActionsDeployRole props)]
   \<and> assumedBy (githubActionsDeployRole props) =
       FederatedPrincipal (Attr ''GitHubOIDCProvider'' ''openIdConnectProviderArn'')
         [\<lparr> operator = ''StringEquals'',
             conditionKey = ''token.actions.githubusercontent.com:aud'',
             conditionValues = [''sts.amazonaws.com''] \<rparr>,
          \<lparr> operator = ''StringLike'',
             conditionKey = ''token.actions.githubusercontent.com:sub'',
             conditionValues = [''repo:'' @ repoOwner props @ ''/'' @ repoName props @ '':*''] \<rparr>]
         ''sts:AssumeRoleWithWebIdentity''
   \<and> trustPolicyPermits (githubActionsDeployRole props) action claims =
       (action = ''sts:AssumeRoleWithWebIdentity''
        \<and> claims ''token.actions.githubusercontent.com:aud'' = Some ''sts.amazonaws.com''
        \<and> (\<exists>sub. claims ''token.actions.githubusercontent.com:sub'' = Some sub
              \<and> string_like (''repo:'' @ repoOwner props @ ''/'' @ repoName props @ '':*'') sub))
   \<and> (wildcardFree (repoOwner props) \<and> wildcardFree (repoName props)
        \<and> CHR ''/'' \<notin> set (repoOwner props) \<and> CHR ''/'' \<notin> set owner'
        \<and> CHR '':'' \<notin> set (repoName props) \<and> CHR '':'' \<notin> set name'
      \<longrightarrow> trustPolicyPermits (githubActionsDeployRole props) ''sts:AssumeRoleWithWebIdentity''
            (tokenClaims ''sts.amazonaws.com'' (''repo:'' @ owner' @ ''/'' @ name' @ '':'' @ ref))
          = (owner' = repoOwner props \<and> name' = repoName props))"
proof -
  have a: "rolesOf (constructs (GitHubActionsRoleStack ident props))
     = [(''GitHubActionsDeployRole'', githubActionsDeployRole props)]"
    by (simp add: GitHubActionsRoleStack_def)
  have c: "wildcardFree (repoOwner props) \<and> wildcardFree (repoName props)
        \<and> CHR ''/'' \<notin> set (repoOwner props) \<and> CHR ''/'' \<notin> set owner'
        \<and> CHR '':'' \<notin> set (repoName props) \<and> CHR '':'' \<notin> set name'
      \<longrightarrow> trustPolicyPermits (githubActionsDeployRole props) ''sts:AssumeRoleWithWebIdentity''
            (tokenClaims ''sts.amazonaws.com'' (''repo:'' @ owner' @ ''/'' @ name' @ '':'' @ ref))
          = (owner' = repoOwner props \<and> name' = repoName props)"
    using repository_subject [of "repoOwner props" "repoName props" owner' name' ref]
    by (simp add: trustPolicyPermits_githubActionsDeployRole tokenClaims_def)
  show ?thesis
    using a c assumedBy_githubActionsDeployRole trustPolicyPermits_githubActionsDeployRole
    by blast
qed

theorem github_trust_policy_witness:
  "wildcardFree (repoOwner sampleRoleProps) \<and> wildcardFree (repoName sampleRoleProps)
   \<and> CHR ''/'' \<notin> set (repoOwner sampleRoleProps) \<and> CHR ''/'' \<notin> set ''mallory''
   \<and> CHR '':'' \<notin> set (repoName sampleRoleProps) \<and> CHR '':'' \<notin> set ''site''
   \<and> \<not> trustPolicyPermits (githubActionsDeployRole sampleRoleProps) ''sts:AssumeRoleWithWebIdentity''
        (tokenClaims ''sts.amazonaws.com'' (''repo:'' @ ''mallory'' @ ''/'' @ ''site'' @ '':'' @ ''ref:refs/heads/main''))
   \<and> trustPolicyPermits (githubActionsDeployRole sampleRoleProps) ''sts:AssumeRoleWithWebIdentity''
        (tokenClaims ''sts.amazonaws.com'' ''repo:octo/site:ref:refs/heads/feature'')
   \<and> \<not> trustPolicyPermits (githubActionsDeployRole sampleRoleProps) ''sts:AssumeRoleWithWebIdentity''
        (tokenClaims ''other-audience'' ''repo:octo/site:ref:refs/heads/main'')"
proof -
  have h: "wildcardFree (repoOwner sampleRoleProps) \<and> wildcardFree (repoName sampleRoleProps)
   \<and> CHR ''/'' \<notin> set (repoOwner sampleRoleProps) \<and> CHR ''/'' \<notin> set ''mallory''
   \<and> CHR '':'' \<notin> set (repoName sampleRoleProps) \<and> CHR '':'' \<notin> set ''site''"
    by (simp add: sampleRoleProps_def wildcardFree_def)
  have n: "''mallory'' \<noteq> repoOwner sampleRoleProps"
    by (simp add: sampleRoleProps_def)
  have p1: "\<not> trustPolicyPermits (githubActionsDeployRole sampleRoleProps) ''sts:AssumeRoleWithWebIdentity''
        (tokenClaims ''sts.amazonaws.com'' (''repo:'' @ ''mallory'' @ ''/'' @ ''site'' @ '':'' @ ''ref:refs/heads/main''))"
    using github_trust_policy [of "''GammaGitHubActionsRole''" sampleRoleProps _ _ "''mallory''" "''site''" "''ref:refs/heads/main''"] h n
    by blast
  have p2: "trustPolicyPermits (githubActionsDeployRole sampleRoleProps) ''sts:AssumeRoleWithWebIdentity''
        (tokenClaims ''sts.amazonaws.com'' ''repo:octo/site:ref:refs/heads/feature'')"
    by (simp add: trustPolicyPermits_githubActionsDeployRole tokenClaims_def sampleRoleProps_def)
  have p3: "\<not> trustPolicyPermits (githubActionsDeployRole sampleRoleProps) ''sts:AssumeRoleWithWebIdentity''
        (tokenClaims ''other-audience'' ''repo:octo/site:ref:refs/heads/main'')"
    by (simp add: trustPolicyPermits_githubActionsDeployRole tokenClaims_def sampleRoleProps_def)
  from h p1 p2 p3 show ?thesis by blast
qed


section \<open>Properties of infra/bin/app.ts\<close>

lemma validateRequired_find:
  "validateRequired c fs =
     map_option (\<lambda>f. Error (missingMessage f)) (find (\<lambda>f. falsy (configField c f)) fs)"
  by (induction fs) auto

lemma thrown_app:
  "thrown (app inp) = validateRequired (config inp) requiredEnvironmentVars"
  by (simp add: app_def Let_def split: option.splits)

lemma thrown_app_part_003:
  "thrown (app_part_003 inp) = validateRequired (config inp) requiredEnvironmentVars"
  by (simp add: app_part_003_def Let_def split: option.splits)

lemma instantiated_app_thrown:
  "thrown (app inp) \<noteq> None \<Longrightarrow> instantiated (app inp) = []"
  by (auto simp: app_def Let_def split: option.splits)

lemma instantiated_app_part_003_thrown:
  "thrown (app_part_003 inp) \<noteq> None \<Longrightarrow> instantiated (app_part_003 inp) = []"
  by (auto simp: app_part_003_def Let_def split: option.splits)

lemma configField_config:
  "field \<in> set requiredEnvironmentVars \<Longrightarrow>
     configField (config inp) field
       = orElse (cdkContext inp field) (processEnv inp (environmentVariable field))"
  by (auto simp: requiredEnvironmentVars_def configField_def config_def environmentVariable_def)

lemma absent_falsy:
  assumes "field \<in> set requiredEnvironmentVars"
    and "cdkContext inp field = None" and "processEnv inp (environmentVariable field) = None"
  shows "falsy (configField (config inp) field)"
  using assms by (simp add: configField_config orElse_def falsy_def)

lemma find_only_falsy:
  assumes "f \<in> set fs" "P f" "\<forall>g \<in> set fs. g \<noteq> f \<longrightarrow> \<not> P g"
  shows "find P fs = Some f"
  using assms by (induction fs) auto

lemma find_none: "(\<forall>g \<in> set fs. \<not> P g) \<Longrightarrow> find P fs = None"
  by (induction fs) auto

lemma stageStacks_ids:
  "map declId (concat (map (stageStacks c) stages)) =
     [''GammaStaticWebsiteStack'', ''GammaGitHubActionsRole'',
      ''ProdStaticWebsiteStack'', ''ProdGitHubActionsRole'']"
  by (simp add: stageStacks_def stages_def Let_def)

lemma app_ids:
  "thrown (app inp) = None \<Longrightarrow>
     map declId (instantiated (app inp)) =
       [''DnsStack'', ''GammaStaticWebsiteStack'', ''GammaGitHubActionsRole'',
        ''ProdStaticWebsiteStack'', ''ProdGitHubActionsRole'']"
  by (auto simp: app_def Let_def stageStacks_ids split: option.splits)

lemma app_part_003_ids:
  "thrown (app_part_003 inp) = None \<Longrightarrow>
     map declId (instantiated (app_part_003 inp)) =
       [''DnsStack'', ''GammaStaticWebsiteStack'', ''ProdStaticWebsiteStack'',
        ''GammaGitHubActionsRole'', ''ProdGitHubActionsRole'']"
  by (auto simp: app_part_003_def Let_def split: option.splits)

lemma distinct_messages: "distinct (map missingMessage requiredEnvironmentVars)"
  by (simp add: requiredEnvironmentVars_def missingMessage_def)


lemma app_validation:
  "thrown (app inp)
     = map_option (\<lambda>f. Error (missingMessage f))
         (find (\<lambda>f. falsy (configField (config inp) f)) requiredEnvironmentVars)
   \<and> (thrown (app inp) \<noteq> None \<longrightarrow> instantiated (app inp) = [])
   \<and> (field \<in> set requiredEnvironmentVars \<and> cdkContext inp field = None
        \<and> processEnv inp (environmentVariable field) = None
      \<longrightarrow> thrown (app inp) \<noteq> None \<and> instantiated (app inp) = [])
   \<and> (field \<in> set requiredEnvironmentVars \<and> cdkContext inp field = None
        \<and> processEnv inp (environmentVariable field) = None
        \<and> (\<forall>g \<in> set requiredEnvironmentVars. g \<noteq> field \<longrightarrow> \<not> falsy (configField (config inp) g))
      \<longrightarrow> thrown (app inp) = Some (Error (missingMessage field)) \<and> instantiated (app inp) = [])
   \<and> ((\<forall>g \<in> set requiredEnvironmentVars. \<not> falsy (configField (config inp) g))
      \<longrightarrow> thrown (app inp) = None
          \<and> map declId (instantiated (app inp)) =
               [''DnsStack'', ''GammaStaticWebsiteStack'', ''GammaGitHubActionsRole'',
                ''ProdStaticWebsiteStack'', ''ProdGitHubActionsRole''])
   \<and> distinct (map missingMessage requiredEnvironmentVars)
   \<and> thrown (app_part_003 inp) = thrown (app inp)
   \<and> (thrown (app_part_003 inp) \<noteq> None \<longrightarrow> instantiated (app_part_003 inp) = [])
   \<and> (thrown (app_part_003 inp) = None
      \<longrightarrow> map declId (instantiated (app_part_003 inp)) =
               [''DnsStack'', ''GammaStaticWebsiteStack'', ''ProdStaticWebsiteStack'',
                ''GammaGitHubActionsRole'', ''ProdGitHubActionsRole''])"
proof -
  let ?missing = "\<lambda>f. falsy (configField (config inp) f)"
  have t: "thrown (app inp)
     = map_option (\<lambda>f. Error (missingMessage f)) (find ?missing requiredEnvironmentVars)"
    by (simp add: thrown_app validateRequired_find)
  have a: "field \<in> set requiredEnvironmentVars \<and> cdkContext inp field = None
        \<and> processEnv inp (environmentVariable field) = None
      \<longrightarrow> thrown (app inp) \<noteq> None \<and> instantiated (app inp) = []"
  proof
    assume h: "field \<in> set requiredEnvironmentVars \<and> cdkContext inp field = None
        \<and> processEnv inp (environmentVariable field) = None"
    then have "?missing field" by (simp add: absent_falsy)
    with h have "find ?missing requiredEnvironmentVars \<noteq> None"
      by (auto simp: find_None_iff)
    then have "thrown (app inp) \<noteq> None" by (simp add: t)
    then show "thrown (app inp) \<noteq> None \<and> instantiated (app inp) = []"
      by (simp add: instantiated_app_thrown)
  qed
  have b: "field \<in> set requiredEnvironmentVars \<and> cdkContext inp field = None
        \<and> processEnv inp (environmentVariable field) = None
        \<and> (\<forall>g \<in> set requiredEnvironmentVars. g \<noteq> field \<longrightarrow> \<not> ?missing g)
      \<longrightarrow> thrown (app inp) = Some (Error (missingMessage field)) \<and> instantiated (app inp) = []"
  proof
    assume h: "field \<in> set requiredEnvironmentVars \<and> cdkContext inp field = None
        \<and> processEnv inp (environmentVariable field) = None
        \<and> (\<forall>g \<in> set requiredEnvironmentVars. g \<noteq> field \<longrightarrow> \<not> ?missing g)"
    then have "?missing field" by (simp add: absent_falsy)
    with h have "find ?missing requiredEnvironmentVars = Some field"
      by (intro find_only_falsy) simp_all
    then have "thrown (app inp) = Some (Error (missingMessage field))" by (simp add: t)
    then show "thrown (app inp) = Some (Error (missingMessage field)) \<and> instantiated (app inp) = []"
      by (simp add: instantiated_app_thrown)
  qed
  have c: "(\<forall>g \<in> set requiredEnvironmentVars. \<not> ?missing g)
      \<longrightarrow> thrown (app inp) = None
          \<and> map declId (instantiated (app inp)) =
               [''DnsStack'', ''GammaStaticWebsiteStack'', ''GammaGitHubActionsRole'',
                ''ProdStaticWebsiteStack'', ''ProdGitHubActionsRole'']"
  proof
    assume "\<forall>g \<in> set requiredEnvironmentVars. \<not> ?missing g"
    then have "find ?missing requiredEnvironmentVars = None" by (rule find_none)
    then have n: "thrown (app inp) = None" by (simp add: t)
    with app_ids [OF n] show "thrown (app inp) = None
          \<and> map declId (instantiated (app inp)) =
               [''DnsStack'', ''GammaStaticWebsiteStack'', ''GammaGitHubActionsRole'',
                ''ProdStaticWebsiteStack'', ''ProdGitHubActionsRole'']"
      by simp
  qed
  have d: "thrown (app_part_003 inp) = thrown (app inp)"
    by (simp add: thrown_app thrown_app_part_003)
  show ?thesis
    using t a b c d instantiated_app_thrown instantiated_app_part_003_thrown app_part_003_ids
      distinct_messages
    by blast
qed

lemma required_pairs:
  "(f, e) \<in> set [(''dnsAccount'', ''DNS_ACCOUNT_ID''), (''gammaAccount'', ''GAMMA_ACCOUNT_ID''),
                 (''prodAccount'', ''PROD_ACCOUNT_ID''), (''domainName'', ''DOMAIN_NAME''),
                 (''repoOwner'', ''GITHUB_REPOSITORY_OWNER''), (''repoName'', ''REPO_NAME'')]
   = (f \<in> set requiredEnvironmentVars \<and> e = environmentVariable f)"
  by (auto simp: requiredEnvironmentVars_def environmentVariable_def)

lemma falsy_orElse:
  "falsy (orElse a b) = (a \<in> {None, Some []} \<and> b \<in> {None, Some []})"
  by (auto simp: orElse_def falsy_def split: option.splits)

lemma falsy_configField:
  "f \<in> set requiredEnvironmentVars \<Longrightarrow>
     falsy (configField (config inp) f)
       = (cdkContext inp f \<in> {None, Some []}
          \<and> processEnv inp (environmentVariable f) \<in> {None, Some []})"
  by (simp only: configField_config falsy_orElse)

lemma thrown_names_required:
  "thrown (app inp) = Some err \<Longrightarrow>
     \<exists>g \<in> set requiredEnvironmentVars. err = Error (missingMessage g)
        \<and> falsy (configField (config inp) g)"
  by (auto simp: thrown_app validateRequired_find find_Some_iff)


text \<open>
  Claim C4. The required configuration fields are \<open>dnsAccount\<close>, \<open>gammaAccount\<close>,
  \<open>prodAccount\<close>, \<open>domainName\<close>, \<open>repoOwner\<close> and \<open>repoName\<close>, each read from the
  CDK context under its own name or else from its environment variable. If one of them
  is absent from both the context and the environment, the app throws, with the message
  of a required field, before any stack is instantiated; when that field is the only one
  without a value, the message names exactly that field. Whatever is thrown names a
  required field that has no value, and the messages of the six fields are all
  different. When every required field has a (non-empty) value in the context or in the
  environment, nothing is thrown and the five stacks are instantiated. Both versions of
  the app (infra/bin/app.ts and unnamed/part_003) throw the same error on the same
  inputs.
\<close>

theorem missing_required_configuration:
  "(let required =
          [(''dnsAccount'', ''DNS_ACCOUNT_ID''), (''gammaAccount'', ''GAMMA_ACCOUNT_ID''),
           (''prodAccount'', ''PROD_ACCOUNT_ID''), (''domainName'', ''DOMAIN_NAME''),
           (''repoOwner'', ''GITHUB_REPOSITORY_OWNER''), (''repoName'', ''REPO_NAME'')];
        message =
          (\<lambda>field. ''Missing required configuration: '' @ field @ ''. Set via --context '' @ field
              @ ''=value or environment variable '' @ toUpperCase field);
        hasValue =
          (\<lambda>field var. cdkContext inp field \<notin> {None, Some []}
                          \<or> processEnv inp var \<notin> {None, Some []})
    in
      (\<forall>p \<in> set required.
          cdkContext inp (fst p) = None \<and> processEnv inp (snd p) = None \<longrightarrow>
            (\<exists>q \<in> set required. thrown (app inp) = Some (Error (message (fst q))))
            \<and> instantiated (app inp) = [])
    \<and> (\<forall>p \<in> set required.
          cdkContext inp (fst p) = None \<and> processEnv inp (snd p) = None
          \<and> (\<forall>q \<in> set required. fst q \<noteq> fst p \<longrightarrow> hasValue (fst q) (snd q)) \<longrightarrow>
            thrown (app inp) = Some (Error (message (fst p))) \<and> instantiated (app inp) = [])
    \<and> (\<forall>err. thrown (app inp) = Some err \<longrightarrow>
          (\<exists>p \<in> set required. err = Error (message (fst p)) \<and> \<not> hasValue (fst p) (snd p))
          \<and> instantiated (app inp) = [])
    \<and> ((\<forall>p \<in> set required. hasValue (fst p) (snd p)) \<longrightarrow>
          thrown (app inp) = None
          \<and> map declId (instantiated (app inp)) =
                 [''DnsStack'', ''GammaStaticWebsiteStack'', ''GammaGitHubActionsRole'',
                  ''ProdStaticWebsiteStack'', ''ProdGitHubActionsRole''])
    \<and> distinct (map (\<lambda>p. message (fst p)) required)
    \<and> thrown (app_part_003 inp) = thrown (app inp)
    \<and> (thrown (app_part_003 inp) \<noteq> None \<longrightarrow> instantiated (app_part_003 inp) = [])
    \<and> (thrown (app_part_003 inp) = None \<longrightarrow>
          map declId (instantiated (app_part_003 inp)) =
                 [''DnsStack'', ''GammaStaticWebsiteStack'', ''ProdStaticWebsiteStack'',
                  ''GammaGitHubActionsRole'', ''ProdGitHubActionsRole'']))"
proof -
  define R where "R = [(''dnsAccount'', ''DNS_ACCOUNT_ID''), (''gammaAccount'', ''GAMMA_ACCOUNT_ID''),
           (''prodAccount'', ''PROD_ACCOUNT_ID''), (''domainName'', ''DOMAIN_NAME''),
           (''repoOwner'', ''GITHUB_REPOSITORY_OWNER''), (''repoName'', ''REPO_NAME'')]"
  define msg where "msg = (\<lambda>field::string. ''Missing required configuration: '' @ field @ ''. Set via --context '' @ field
              @ ''=value or environment variable '' @ toUpperCase field)"
  define hv where "hv = (\<lambda>field var. cdkContext inp field \<notin> {None, Some []}
                          \<or> processEnv inp var \<notin> {None, Some []})"
  have msg: "\<And>f. msg f = missingMessage f"
    by (simp add: msg_def missingMessage_def)
  have R: "\<And>f e. ((f, e) \<in> set R)
             = (f \<in> set requiredEnvironmentVars \<and> e = environmentVariable f)"
    unfolding R_def by (rule required_pairs)
  have Rp: "\<And>p. p \<in> set R \<Longrightarrow>
              fst p \<in> set requiredEnvironmentVars \<and> snd p = environmentVariable (fst p)"
  proof -
    fix p assume "p \<in> set R"
    then have "(fst p, snd p) \<in> set R" by simp
    then show "fst p \<in> set requiredEnvironmentVars \<and> snd p = environmentVariable (fst p)"
      by (simp only: R)
  qed
  have Rin: "\<And>g. g \<in> set requiredEnvironmentVars \<Longrightarrow> (g, environmentVariable g) \<in> set R"
    by (simp only: R)
  have hv: "\<And>p. p \<in> set R \<Longrightarrow>
              hv (fst p) (snd p) = (\<not> falsy (configField (config inp) (fst p)))"
  proof -
    fix p assume p: "p \<in> set R"
    from Rp [OF p] have f: "fst p \<in> set requiredEnvironmentVars"
      and e: "snd p = environmentVariable (fst p)" by simp_all
    show "hv (fst p) (snd p) = (\<not> falsy (configField (config inp) (fst p)))"
      unfolding hv_def e falsy_configField [OF f] by blast
  qed
  have c3: "(\<forall>err. thrown (app inp) = Some err \<longrightarrow>
          (\<exists>p \<in> set R. err = Error (msg (fst p)) \<and> \<not> hv (fst p) (snd p))
          \<and> instantiated (app inp) = [])"
  proof (intro allI impI)
    fix err assume t: "thrown (app inp) = Some err"
    from thrown_names_required [OF t] obtain g where g: "g \<in> set requiredEnvironmentVars"
      "err = Error (missingMessage g)" "falsy (configField (config inp) g)" by blast
    define p where "p = (g, environmentVariable g)"
    have m: "p \<in> set R" unfolding p_def using g(1) by (rule Rin)
    have fp: "fst p = g" by (simp add: p_def)
    have "\<not> hv (fst p) (snd p)" using hv [OF m] g(3) fp by simp
    moreover have "err = Error (msg (fst p))" using g(2) msg fp by simp
    ultimately have "\<exists>p \<in> set R. err = Error (msg (fst p)) \<and> \<not> hv (fst p) (snd p)"
      using m by blast
    moreover have "instantiated (app inp) = []"
      using t by (simp add: instantiated_app_thrown)
    ultimately show "(\<exists>p \<in> set R. err = Error (msg (fst p)) \<and> \<not> hv (fst p) (snd p))
          \<and> instantiated (app inp) = []" by blast
  qed
  have c1: "(\<forall>p \<in> set R.
          cdkContext inp (fst p) = None \<and> processEnv inp (snd p) = None \<longrightarrow>
            (\<exists>q \<in> set R. thrown (app inp) = Some (Error (msg (fst q))))
            \<and> instantiated (app inp) = [])"
  proof (intro ballI impI)
    fix p assume p: "p \<in> set R"
      and a: "cdkContext inp (fst p) = None \<and> processEnv inp (snd p) = None"
    from Rp [OF p] a have "fst p \<in> set requiredEnvironmentVars \<and> cdkContext inp (fst p) = None
        \<and> processEnv inp (environmentVariable (fst p)) = None" by simp
    with app_validation [of inp "fst p"]
    have "thrown (app inp) \<noteq> None" by blast
    then obtain err where t: "thrown (app inp) = Some err" by auto
    with c3 obtain q where "q \<in> set R" "err = Error (msg (fst q))"
      and "instantiated (app inp) = []" by blast
    with t show "(\<exists>q \<in> set R. thrown (app inp) = Some (Error (msg (fst q))))
            \<and> instantiated (app inp) = []" by blast
  qed
  have c2: "(\<forall>p \<in> set R.
          cdkContext inp (fst p) = None \<and> processEnv inp (snd p) = None
          \<and> (\<forall>q \<in> set R. fst q \<noteq> fst p \<longrightarrow> hv (fst q) (snd q)) \<longrightarrow>
            thrown (app inp) = Some (Error (msg (fst p))) \<and> instantiated (app inp) = [])"
  proof (intro ballI impI)
    fix p assume p: "p \<in> set R"
      and a: "cdkContext inp (fst p) = None \<and> processEnv inp (snd p) = None
          \<and> (\<forall>q \<in> set R. fst q \<noteq> fst p \<longrightarrow> hv (fst q) (snd q))"
    have others: "\<forall>g \<in> set requiredEnvironmentVars. g \<noteq> fst p
                    \<longrightarrow> \<not> falsy (configField (config inp) g)"
    proof (intro ballI impI)
      fix g assume g: "g \<in> set requiredEnvironmentVars" "g \<noteq> fst p"
      define q where "q = (g, environmentVariable g)"
      have m: "q \<in> set R" unfolding q_def using g(1) by (rule Rin)
      have fq: "fst q = g" by (simp add: q_def)
      from a m g(2) fq have "hv (fst q) (snd q)" by blast
      with hv [OF m] fq show "\<not> falsy (configField (config inp) g)" by simp
    qed
    from Rp [OF p] a have "fst p \<in> set requiredEnvironmentVars \<and> cdkContext inp (fst p) = None
        \<and> processEnv inp (environmentVariable (fst p)) = None" by simp
    with app_validation [of inp "fst p"] others
    have "thrown (app inp) = Some (Error (missingMessage (fst p))) \<and> instantiated (app inp) = []"
      by blast
    then show "thrown (app inp) = Some (Error (msg (fst p))) \<and> instantiated (app inp) = []"
      using msg by simp
  qed
  have c4: "((\<forall>p \<in> set R. hv (fst p) (snd p)) \<longrightarrow>
          thrown (app inp) = None
          \<and> map declId (instantiated (app inp)) =
                 [''DnsStack'', ''GammaStaticWebsiteStack'', ''GammaGitHubActionsRole'',
                  ''ProdStaticWebsiteStack'', ''ProdGitHubActionsRole''])"
  proof
    assume a: "\<forall>p \<in> set R. hv (fst p) (snd p)"
    have "\<forall>g \<in> set requiredEnvironmentVars. \<not> falsy (configField (config inp) g)"
    proof
      fix g assume g: "g \<in> set requiredEnvironmentVars"
      define q where "q = (g, environmentVariable g)"
      have m: "q \<in> set R" unfolding q_def using g by (rule Rin)
      have fq: "fst q = g" by (simp add: q_def)
      from a m have "hv (fst q) (snd q)" by blast
      with hv [OF m] fq show "\<not> falsy (configField (config inp) g)" by simp
    qed
    with app_validation [of inp undefined]
    show "thrown (app inp) = None
          \<and> map declId (instantiated (app inp)) =
                 [''DnsStack'', ''GammaStaticWebsiteStack'', ''GammaGitHubActionsRole'',
                  ''ProdStaticWebsiteStack'', ''ProdGitHubActionsRole'']" by blast
  qed
  have "map (\<lambda>p. msg (fst p)) R = map missingMessage requiredEnvironmentVars"
    by (simp add: msg R_def requiredEnvironmentVars_def)
  then have c5: "distinct (map (\<lambda>p. msg (fst p)) R)"
    using distinct_messages by simp
  have c6: "thrown (app_part_003 inp) = thrown (app inp)"
    by (simp add: thrown_app thrown_app_part_003)
  have c7: "(thrown (app_part_003 inp) \<noteq> None \<longrightarrow> instantiated (app_part_003 inp) = [])"
    using instantiated_app_part_003_thrown by blast
  have c8: "(thrown (app_part_003 inp) = None \<longrightarrow>
          map declId (instantiated (app_part_003 inp)) =
                 [''DnsStack'', ''GammaStaticWebsiteStack'', ''ProdStaticWebsiteStack'',
                  ''GammaGitHubActionsRole'', ''ProdGitHubActionsRole''])"
    using app_part_003_ids by blast
  from c1 c2 c3 c4 c5 c6 c7 c8
  have "(\<forall>p \<in> set R.
          cdkContext inp (fst p) = None \<and> processEnv inp (snd p) = None \<longrightarrow>
            (\<exists>q \<in> set R. thrown (app inp) = Some (Error (msg (fst q))))
            \<and> instantiated (app inp) = [])
    \<and> (\<forall>p \<in> set R.
          cdkContext inp (fst p) = None \<and> processEnv inp (snd p) = None
          \<and> (\<forall>q \<in> set R. fst q \<noteq> fst p \<longrightarrow> hv (fst q) (snd q)) \<longrightarrow>
            thrown (app inp) = Some (Error (msg (fst p))) \<and> instantiated (app inp) = [])
    \<and> (\<forall>err. thrown (app inp) = Some err \<longrightarrow>
          (\<exists>p \<in> set R. err = Error (msg (fst p)) \<and> \<not> hv (fst p) (snd p))
          \<and> instantiated (app inp) = [])
    \<and> ((\<forall>p \<in> set R. hv (fst p) (snd p)) \<longrightarrow>
          thrown (app inp) = None
          \<and> map declId (instantiated (app inp)) =
                 [''DnsStack'', ''GammaStaticWebsiteStack'', ''GammaGitHubActionsRole'',
                  ''ProdStaticWebsiteStack'', ''ProdGitHubActionsRole''])
    \<and> distinct (map (\<lambda>p. msg (fst p)) R)
    \<and> thrown (app_part_003 inp) = thrown (app inp)
    \<and> (thrown (app_part_003 inp) \<noteq> None \<longrightarrow> instantiated (app_part_003 inp) = [])
    \<and> (thrown (app_part_003 inp) = None \<longrightarrow>
          map declId (instantiated (app_part_003 inp)) =
                 [''DnsStack'', ''GammaStaticWebsiteStack'', ''ProdStaticWebsiteStack'',
                  ''GammaGitHubActionsRole'', ''ProdGitHubActionsRole''])"
    by (intro conjI)
  then show ?thesis
    unfolding Let_def R_def msg_def hv_def .
qed

theorem missing_required_configuration_witness:
  "cdkContext (sampleInputsWithout ''REPO_NAME'') ''repoName'' = None
   \<and> processEnv (sampleInputsWithout ''REPO_NAME'') ''REPO_NAME'' = None
   \<and> list_all (\<lambda>q. fst q = ''repoName''
                 \<or> cdkContext (sampleInputsWithout ''REPO_NAME'') (fst q) \<notin> {None, Some []}
                 \<or> processEnv (sampleInputsWithout ''REPO_NAME'') (snd q) \<notin> {None, Some []})
      [(''dnsAccount'', ''DNS_ACCOUNT_ID''), (''gammaAccount'', ''GAMMA_ACCOUNT_ID''),
       (''prodAccount'', ''PROD_ACCOUNT_ID''), (''domainName'', ''DOMAIN_NAME''),
       (''repoOwner'', ''GITHUB_REPOSITORY_OWNER''), (''repoName'', ''REPO_NAME'')]
   \<and> thrown (app (sampleInputsWithout ''REPO_NAME''))
       = Some (Error ''Missing required configuration: repoName. Set via --context repoName=value or environment variable REPONAME'')
   \<and> instantiated (app (sampleInputsWithout ''REPO_NAME'')) = []
   \<and> list_all (\<lambda>q. cdkContext sampleInputs (fst q) \<notin> {None, Some []}
                 \<or> processEnv sampleInputs (snd q) \<notin> {None, Some []})
      [(''dnsAccount'', ''DNS_ACCOUNT_ID''), (''gammaAccount'', ''GAMMA_ACCOUNT_ID''),
       (''prodAccount'', ''PROD_ACCOUNT_ID''), (''domainName'', ''DOMAIN_NAME''),
       (''repoOwner'', ''GITHUB_REPOSITORY_OWNER''), (''repoName'', ''REPO_NAME'')]
   \<and> thrown (app sampleInputs) = None
   \<and> map declId (instantiated (app sampleInputs)) =
       [''DnsStack'', ''GammaStaticWebsiteStack'', ''GammaGitHubActionsRole'',
        ''ProdStaticWebsiteStack'', ''ProdGitHubActionsRole'']
   \<and> list_all (\<lambda>q. cdkContext sampleContextInputs (fst q) \<notin> {None, Some []}
                 \<or> processEnv sampleContextInputs (snd q) \<notin> {None, Some []})
      [(''dnsAccount'', ''DNS_ACCOUNT_ID''), (''gammaAccount'', ''GAMMA_ACCOUNT_ID''),
       (''prodAccount'', ''PROD_ACCOUNT_ID''), (''domainName'', ''DOMAIN_NAME''),
       (''repoOwner'', ''GITHUB_REPOSITORY_OWNER''), (''repoName'', ''REPO_NAME'')]
   \<and> thrown (app sampleContextInputs) = None
   \<and> map declId (instantiated (app sampleContextInputs)) =
       [''DnsStack'', ''GammaStaticWebsiteStack'', ''GammaGitHubActionsRole'',
        ''ProdStaticWebsiteStack'', ''ProdGitHubActionsRole'']"
proof -
  let ?w = "sampleInputsWithout ''REPO_NAME''"
  have a1: "cdkContext ?w ''repoName'' = None" and a2: "processEnv ?w ''REPO_NAME'' = None"
    by (simp_all add: sampleInputsWithout_def sampleInputs_def)
  have a3: "list_all (\<lambda>q. fst q = ''repoName''
                 \<or> cdkContext ?w (fst q) \<notin> {None, Some []}
                 \<or> processEnv ?w (snd q) \<notin> {None, Some []})
      [(''dnsAccount'', ''DNS_ACCOUNT_ID''), (''gammaAccount'', ''GAMMA_ACCOUNT_ID''),
       (''prodAccount'', ''PROD_ACCOUNT_ID''), (''domainName'', ''DOMAIN_NAME''),
       (''repoOwner'', ''GITHUB_REPOSITORY_OWNER''), (''repoName'', ''REPO_NAME'')]"
    by (simp add: sampleInputsWithout_def sampleInputs_def)
  have b: "list_all (\<lambda>q. cdkContext sampleInputs (fst q) \<notin> {None, Some []}
                 \<or> processEnv sampleInputs (snd q) \<notin> {None, Some []})
      [(''dnsAccount'', ''DNS_ACCOUNT_ID''), (''gammaAccount'', ''GAMMA_ACCOUNT_ID''),
       (''prodAccount'', ''PROD_ACCOUNT_ID''), (''domainName'', ''DOMAIN_NAME''),
       (''repoOwner'', ''GITHUB_REPOSITORY_OWNER''), (''repoName'', ''REPO_NAME'')]"
    by (simp add: sampleInputs_def)
  have c: "list_all (\<lambda>q. cdkContext sampleContextInputs (fst q) \<notin> {None, Some []}
                 \<or> processEnv sampleContextInputs (snd q) \<notin> {None, Some []})
      [(''dnsAccount'', ''DNS_ACCOUNT_ID''), (''gammaAccount'', ''GAMMA_ACCOUNT_ID''),
       (''prodAccount'', ''PROD_ACCOUNT_ID''), (''domainName'', ''DOMAIN_NAME''),
       (''repoOwner'', ''GITHUB_REPOSITORY_OWNER''), (''repoName'', ''REPO_NAME'')]"
    by (simp add: sampleContextInputs_def)
  have m: "''Missing required configuration: '' @ ''repoName'' @ ''. Set via --context '' @ ''repoName''
              @ ''=value or environment variable '' @ toUpperCase ''repoName''
           = ''Missing required configuration: repoName. Set via --context repoName=value or environment variable REPONAME''"
    by (simp add: toUpperCase_def toUpperCase_char_def lowerCaseLetters_def upperCaseLetters_def)
  have mem: "(''repoName'', ''REPO_NAME'') \<in> set [(''dnsAccount'', ''DNS_ACCOUNT_ID''), (''gammaAccount'', ''GAMMA_ACCOUNT_ID''),
       (''prodAccount'', ''PROD_ACCOUNT_ID''), (''domainName'', ''DOMAIN_NAME''),
       (''repoOwner'', ''GITHUB_REPOSITORY_OWNER''), (''repoName'', ''REPO_NAME'')]"
    by simp
  note t1 = missing_required_configuration [of ?w, unfolded Let_def]
  note t2 = missing_required_configuration [of sampleInputs, unfolded Let_def]
  note t3 = missing_required_configuration [of sampleContextInputs, unfolded Let_def]
  from t1 have "\<forall>p \<in> set [(''dnsAccount'', ''DNS_ACCOUNT_ID''), (''gammaAccount'', ''GAMMA_ACCOUNT_ID''),
       (''prodAccount'', ''PROD_ACCOUNT_ID''), (''domainName'', ''DOMAIN_NAME''),
       (''repoOwner'', ''GITHUB_REPOSITORY_OWNER''), (''repoName'', ''REPO_NAME'')].
          cdkContext ?w (fst p) = None \<and> processEnv ?w (snd p) = None
          \<and> (\<forall>q \<in> set [(''dnsAccount'', ''DNS_ACCOUNT_ID''), (''gammaAccount'', ''GAMMA_ACCOUNT_ID''),
       (''prodAccount'', ''PROD_ACCOUNT_ID''), (''domainName'', ''DOMAIN_NAME''),
       (''repoOwner'', ''GITHUB_REPOSITORY_OWNER''), (''repoName'', ''REPO_NAME'')]. fst q \<noteq> fst p \<longrightarrow>
                 cdkContext ?w (fst q) \<notin> {None, Some []} \<or> processEnv ?w (snd q) \<notin> {None, Some []}) \<longrightarrow>
            thrown (app ?w) = Some (Error (''Missing required configuration: '' @ fst p
              @ ''. Set via --context '' @ fst p @ ''=value or environment variable ''
              @ toUpperCase (fst p))) \<and> instantiated (app ?w) = []"
    by (elim conjE)
  from bspec [OF this mem] a1 a2 a3
  have r1: "thrown (app ?w) = Some (Error ''Missing required configuration: repoName. Set via --context repoName=value or environment variable REPONAME'') \<and> instantiated (app ?w) = []"
    unfolding m [symmetric] by (simp add: list_all_iff)
  from t2 b have r2: "thrown (app sampleInputs) = None
      \<and> map declId (instantiated (app sampleInputs)) =
       [''DnsStack'', ''GammaStaticWebsiteStack'', ''GammaGitHubActionsRole'',
        ''ProdStaticWebsiteStack'', ''ProdGitHubActionsRole'']"
    by (simp add: list_all_iff)
  from t3 c have r3: "thrown (app sampleContextInputs) = None
      \<and> map declId (instantiated (app sampleContextInputs)) =
       [''DnsStack'', ''GammaStaticWebsiteStack'', ''GammaGitHubActionsRole'',
        ''ProdStaticWebsiteStack'', ''ProdGitHubActionsRole'']"
    by (simp add: list_all_iff)
  from a1 a2 a3 b c r1 r2 r3 show ?thesis by (intro conjI) simp_all
qed

section \<open>The domain names of the website stacks\<close>

lemma distributionDomainNames_lib:
  "distributionDomainNames (StaticWebsiteStack ident props) =
     (if stageName props = ''prod'' then [rootHostedZoneName props, domainName props]
      else [domainName props])"
  by (simp add: distributionDomainNames_def theDistribution_def StaticWebsiteStack_def)

lemma certificateCoveredNames_lib:
  "certificateCoveredNames (StaticWebsiteStack ident props) =
     Some (if stageName props = ''prod'' then [domainName props, rootHostedZoneName props]
           else [domainName props])"
  by (simp add: certificateCoveredNames_def boundCertificate_def theDistribution_def
        StaticWebsiteStack_def)

lemma distributionDomainNames_part_004:
  "distributionDomainNames (StaticWebsiteStack_part_004 ident props) =
     (if stageName props = ''prod''
      then [''www.'' @ rootHostedZoneName props, rootHostedZoneName props, domainName props]
      else [domainName props])"
  by (simp add: distributionDomainNames_def theDistribution_def StaticWebsiteStack_part_004_def)

lemma certificateCoveredNames_part_004:
  "certificateCoveredNames (StaticWebsiteStack_part_004 ident props) =
     (if stageName props = ''prod'' then Some [domainName props] else None)"
  by (simp add: certificateCoveredNames_def boundCertificate_def theDistribution_def
        StaticWebsiteStack_part_004_def)

lemma lib_distribution_names_covered:
  "\<exists>ns. certificateCoveredNames (StaticWebsiteStack ident props) = Some ns
        \<and> set (distributionDomainNames (StaticWebsiteStack ident props)) \<subseteq> set ns"
  by (auto simp: distributionDomainNames_lib certificateCoveredNames_lib)










lemma part_004_prod_not_covered:
  assumes "stageName props = ''prod''"
  shows "certificateCoveredNames (StaticWebsiteStack_part_004 ident props) = Some [domainName props]
         \<and> \<not> set (distributionDomainNames (StaticWebsiteStack_part_004 ident props))
               \<subseteq> set [domainName props]"
  using assms by (auto simp: distributionDomainNames_part_004 certificateCoveredNames_part_004)

text \<open>
  Claim C2 says that the domain names of every stage's distribution are among the names
  covered by the certificate bound to it. The stack of infra/lib keeps to that
  (\<open>lib_distribution_names_covered\<close>). The version of unnamed/part_004 does not for the
  \<open>prod\<close> stage: its distribution declares the root domain and the \<open>www\<close> alias, and the
  certificate bound to it covers the stage's subdomain only.
\<close>

theorem part_004_prod_distribution_not_covered:
  "distributionDomainNames (StaticWebsiteStack_part_004 ''ProdStaticWebsiteStack'' sampleProdProps)
     = [''www.example.com'', ''example.com'', ''prod.example.com'']
   \<and> certificateCoveredNames (StaticWebsiteStack_part_004 ''ProdStaticWebsiteStack'' sampleProdProps)
     = Some [''prod.example.com'']
   \<and> \<not> set [''www.example.com'', ''example.com'', ''prod.example.com'']
         \<subseteq> set [''prod.example.com'']"
  by (simp add: distributionDomainNames_part_004 certificateCoveredNames_part_004
        sampleProdProps_def)


end
